theory Spec2Isabelle
  imports Complex_Main
begin

section \<open>Brightness detection (core/bright\_lights.py): data model\<close>

text \<open>
  The module is Python 2 over numpy. Arrays of floating-point numbers are modelled with
  exact real arithmetic on their finite values; the special values that numpy produces
  and that the code tests for (NaN and the two infinities) are constructors of their own.
  Every exception the code can raise is a value of \<open>py_error\<close>, and a function that can
  raise returns \<open>py_error + 'a\<close> with \<open>Inl\<close> for the exception.
\<close>

datatype py_error =
    IndexError
  | ValueError
  | NansPresent          \<comment> \<open>\<open>ValueError("Nans present")\<close> of \<open>_find_detections\<close>\<close>
  | NameError
  | UnboundLocalError
  | IOError
  | TypeError
  | ZeroDivisionError
  | SystemExit

datatype npfloat = Fin real | PInf | NInf | NaN

text \<open>A node is the tuple \<open>(row[0], row[1], row[2])\<close> of strings read from the grid file.\<close>

type_synonym node = "string \<times> string \<times> string"

text \<open>
  An obspy trace, as far as the module reads it: \<open>tr.stats.station\<close>,
  \<open>tr.stats.sampling_rate\<close> and \<open>tr.data\<close>.
\<close>

record trace =
  station :: string
  sampling_rate :: real
  data :: "real list"

text \<open>
  A two-dimensional array \<open>lags\<close> is the list of its rows, one row per station and one
  column per node. \<open>ncols\<close> is \<open>shape[1]\<close>, \<open>column m i\<close> is \<open>m[:, i]\<close>. An array
  without a row is taken to have no column.
\<close>

definition ncols :: "'a list list \<Rightarrow> nat" where
  "ncols m = (case m of [] \<Rightarrow> 0 | r # _ \<Rightarrow> length r)"

definition column :: "'a list list \<Rightarrow> nat \<Rightarrow> 'a list" where
  "column m i = map (\<lambda>r. r ! i) m"

section \<open>Energy stacking: \<open>_node_loop\<close>\<close>

text \<open>
  Python 2's \<open>round\<close> rounds half away from zero; \<open>int\<close> of the result is exact.
\<close>

definition py_round :: "real \<Rightarrow> int" where
  "py_round x = (if 0 \<le> x then \<lfloor>x + 1 / 2\<rfloor> else - \<lfloor>- x + 1 / 2\<rfloor>)"

text \<open>
  Lines 243 and 244:
  \<^verbatim>\<open>pad=np.zeros(int(round(lag*tr.stats.sampling_rate)))\<close>
  \<^verbatim>\<open>lagged_energy=np.square(np.concatenate((tr.data, pad)))[len(pad):]\<close>
  The product \<open>lag*tr.stats.sampling_rate\<close> is a product of two floats, which the
  machine rounds to a float before \<open>round\<close> sees it; the pad length depends on that
  rounding. \<open>fmul\<close> is the float product, a parameter. \<open>np.zeros\<close> of a negative length
  raises ValueError.
\<close>

definition lagged_energy ::
  "(real \<Rightarrow> real \<Rightarrow> real) \<Rightarrow> real list \<Rightarrow> real \<Rightarrow> real \<Rightarrow> py_error + real list"
where
  "lagged_energy fmul d lag rate =
     (let p = py_round (fmul lag rate) in
      if p < 0 then Inl ValueError
      else let pad = replicate (nat p) (0::real) in
           Inr (drop (length pad) (map (\<lambda>x. x\<^sup>2) (d @ pad))))"

text \<open>
  The sentence of the specification, in its own words: the squared amplitudes, padded at
  the start with \<open>round(L * r)\<close> zeros and truncated to the original length.
\<close>

definition spec_lagged_energy ::
  "(real \<Rightarrow> real \<Rightarrow> real) \<Rightarrow> real list \<Rightarrow> real \<Rightarrow> real \<Rightarrow> real list"
where
  "spec_lagged_energy fmul d lag rate =
     take (length d) (replicate (nat (py_round (fmul lag rate))) 0 @ map (\<lambda>x. x\<^sup>2) d)"

text \<open>
  The stream loop of \<open>_node_loop\<close> (lines 233 to 252). \<open>matching\<close> is the list \<open>j\<close> of
  the indices of the station list whose name is the trace's. The state of the loop is
  the list of warnings given so far and the array \<open>energy\<close> (its rows), which is not
  bound before the first matched trace (\<open>None\<close>). \<open>clip_level\<close> is
  \<open>par.bright_lights_par.clip_level\<close>, a parameter.
\<close>

definition matching :: "string list \<Rightarrow> trace \<Rightarrow> nat list" where
  "matching stations tr = filter (\<lambda>k. stations ! k = station tr) [0..<length stations]"

definition mean :: "real list \<Rightarrow> real" where
  "mean xs = sum_list xs / real (length xs)"

text \<open>\<open>np.clip(a, a_min, a_max)\<close> is \<open>minimum(a_max, maximum(a, a_min))\<close>.\<close>

definition clip :: "real \<Rightarrow> real \<Rightarrow> real list \<Rightarrow> real list" where
  "clip a_min a_max xs = map (\<lambda>x. min a_max (max a_min x)) xs"

definition rms :: "real list \<Rightarrow> real" where
  "rms xs = sqrt (mean (map (\<lambda>x. x\<^sup>2) xs))"

text \<open>
  \<open>lagged_energy/np.sqrt(np.mean(np.square(lagged_energy)))\<close>. numpy does not raise on
  a division by zero: the root mean square is zero only when every sample is zero, and
  \<open>0/0\<close> is NaN.
\<close>

definition normalise :: "real list \<Rightarrow> npfloat list" where
  "normalise xs =
     (if rms xs = 0 then map (\<lambda>_. NaN) xs else map (\<lambda>x. Fin (x / rms xs)) xs)"

fun np_add :: "npfloat \<Rightarrow> npfloat \<Rightarrow> npfloat" where
  "np_add (Fin a) (Fin b) = Fin (a + b)"
| "np_add NaN _ = NaN"
| "np_add _ NaN = NaN"
| "np_add PInf NInf = NaN"
| "np_add NInf PInf = NaN"
| "np_add PInf _ = PInf"
| "np_add _ PInf = PInf"
| "np_add NInf _ = NInf"
| "np_add _ NInf = NInf"

fun node_loop_stream ::
  "(real \<Rightarrow> real \<Rightarrow> real) \<Rightarrow> real \<Rightarrow> string list \<Rightarrow> real list \<Rightarrow> trace list \<Rightarrow>
     string list \<Rightarrow> npfloat list list option \<Rightarrow>
     py_error + (string list \<times> npfloat list list option)"
where
  "node_loop_stream fmul clip_level stations lags [] w energy = Inr (w, energy)"
| "node_loop_stream fmul clip_level stations lags (tr # trs) w energy =
     (let j = matching stations tr;
          w1 = (if length j > 1 then w @ [''Too many stations''] else w)
      in if length j = 0
         then node_loop_stream fmul clip_level stations lags trs
                (w1 @ [''No station match'']) energy
         else if length lags \<le> hd j then Inl IndexError
         else case lagged_energy fmul (data tr) (lags ! hd j) (sampling_rate tr) of
                Inl err \<Rightarrow> Inl err
              | Inr le \<Rightarrow>
                  (let clipped = clip 0 (clip_level * mean le) le;
                       norm_energy = normalise clipped
                   in case energy of
                        None \<Rightarrow>
                          node_loop_stream fmul clip_level stations lags trs w1
                            (Some [norm_energy])
                      | Some rows \<Rightarrow>
                          if length norm_energy \<noteq> ncols rows then Inl ValueError
                          else node_loop_stream fmul clip_level stations lags trs w1
                                 (Some (rows @ [norm_energy]))))"

text \<open>\<open>np.sum(energy, axis=0)\<close>: the sum of every column, NaN and the infinities included.\<close>

definition sum_axis0 :: "npfloat list list \<Rightarrow> npfloat list" where
  "sum_axis0 rows = map (\<lambda>t. foldl np_add (Fin 0) (column rows t)) [0..<ncols rows]"

text \<open>
  Lines 233 to 253: the warnings and the node's energy trace. When no trace matched,
  \<open>energy\<close> is not bound at line 253 and the function raises.
\<close>

definition stack_energy ::
  "(real \<Rightarrow> real \<Rightarrow> real) \<Rightarrow> real \<Rightarrow> string list \<Rightarrow> real list \<Rightarrow> trace list \<Rightarrow>
     py_error + (string list \<times> npfloat list)"
where
  "stack_energy fmul clip_level stations lags stream =
     (case node_loop_stream fmul clip_level stations lags stream [] None of
        Inl err \<Rightarrow> Inl err
      | Inr (w, None) \<Rightarrow> Inl UnboundLocalError
      | Inr (w, Some rows) \<Rightarrow> Inr (w, sum_axis0 rows))"

text \<open>
  The scratch area of one run instance: the file \<open>tmp<instance>/node_<i>.npy\<close> is the
  slot \<open>i\<close>. \<open>_node_loop\<close> returns the energy, or saves it and returns the slot.
\<close>

type_synonym scratch = "nat \<Rightarrow> npfloat list option"

datatype node_result = Energy "npfloat list" | Saved nat

definition node_loop ::
  "(real \<Rightarrow> real \<Rightarrow> real) \<Rightarrow> real \<Rightarrow> string list \<Rightarrow> real list \<Rightarrow> trace list \<Rightarrow> nat \<Rightarrow>
     bool \<Rightarrow> scratch \<Rightarrow> py_error + (string list \<times> scratch \<times> nat \<times> node_result)"
where
  "node_loop fmul clip_level stations lags stream i mem_issue sc =
     (case stack_energy fmul clip_level stations lags stream of
        Inl err \<Rightarrow> Inl err
      | Inr (w, energy) \<Rightarrow>
          if \<not> mem_issue then Inr (w, sc, i, Energy energy)
          else Inr (w, sc(i := Some energy), i, Saved i))"

text \<open>
  Names for the proofs about the loop: the warnings of one trace, the traces that have
  an entry in the station list, and the rows of \<open>energy\<close> after some more traces.
\<close>

definition trace_warnings :: "string list \<Rightarrow> trace \<Rightarrow> string list" where
  "trace_warnings stations tr =
     (if length (matching stations tr) > 1 then [''Too many stations'']
      else if matching stations tr = [] then [''No station match''] else [])"

definition matched :: "string list \<Rightarrow> trace list \<Rightarrow> trace list" where
  "matched stations stream = filter (\<lambda>tr. matching stations tr \<noteq> []) stream"

definition append_rows :: "'a list option \<Rightarrow> 'a list \<Rightarrow> 'a list option" where
  "append_rows e rs =
     (case e of None \<Rightarrow> (if rs = [] then None else Some rs) | Some rows \<Rightarrow> Some (rows @ rs))"

text \<open>
  The policy of the specification, in its own words, for a station list and a waveform
  set: per station, the channels whose station name is the station's; with more than one
  the first is used and a warning given, with none the station is skipped with a warning.
  A station that is used adds one row: its channel's envelope (the squared data, shifted
  by the station's lag as line 244 does), clipped and normalised. The energy of the
  specification is the sum of one such row per matched station.
\<close>

definition spec_station_channels :: "trace list \<Rightarrow> string \<Rightarrow> trace list" where
  "spec_station_channels stream st = filter (\<lambda>tr. station tr = st) stream"

definition spec_station_warnings :: "string list \<Rightarrow> trace list \<Rightarrow> string list" where
  "spec_station_warnings stations stream =
     concat (map (\<lambda>st. if length (spec_station_channels stream st) > 1
                        then [''Too many stations'']
                        else if spec_station_channels stream st = []
                        then [''No station match''] else []) stations)"

definition envelope :: "(real \<Rightarrow> real \<Rightarrow> real) \<Rightarrow> real list \<Rightarrow> real \<Rightarrow> real \<Rightarrow> real list" where
  "envelope fmul d lag rate =
     (let p = nat (py_round (fmul lag rate))
      in drop p (map (\<lambda>x. x\<^sup>2) (d @ replicate p 0)))"

definition spec_station_rows ::
  "(real \<Rightarrow> real \<Rightarrow> real) \<Rightarrow> real \<Rightarrow> string list \<Rightarrow> real list \<Rightarrow> trace list \<Rightarrow>
     npfloat list list"
where
  "spec_station_rows fmul clip_level stations lags stream =
     concat (map (\<lambda>k. map (\<lambda>tr. let le = envelope fmul (data tr) (lags ! k) (sampling_rate tr)
                                 in normalise (clip 0 (clip_level * mean le) le))
                        (take 1 (spec_station_channels stream (stations ! k))))
                 [0..<length stations])"

definition spec_stack_energy ::
  "(real \<Rightarrow> real \<Rightarrow> real) \<Rightarrow> real \<Rightarrow> string list \<Rightarrow> real list \<Rightarrow> trace list \<Rightarrow>
     string list \<times> npfloat list"
where
  "spec_stack_energy fmul clip_level stations lags stream =
     (spec_station_warnings stations stream,
      sum_axis0 (spec_station_rows fmul clip_level stations lags stream))"

section \<open>Reduction to the cumulative network response\<close>

text \<open>
  \<open>np.argmax\<close> on floats: the running maximum is replaced by an element \<open>x\<close> when
  \<open>x <= mp\<close> is false, and the scan stops at a NaN. A comparison with NaN is false.
\<close>

fun isnan :: "npfloat \<Rightarrow> bool" where
  "isnan NaN = True"
| "isnan _ = False"

fun np_le :: "npfloat \<Rightarrow> npfloat \<Rightarrow> bool" where
  "np_le NaN _ = False"
| "np_le _ NaN = False"
| "np_le NInf _ = True"
| "np_le _ PInf = True"
| "np_le (Fin a) (Fin b) = (a \<le> b)"
| "np_le _ _ = False"

fun argmax_from :: "npfloat list \<Rightarrow> nat \<Rightarrow> npfloat \<Rightarrow> nat \<Rightarrow> nat" where
  "argmax_from [] i mp max_ind = max_ind"
| "argmax_from (x # xs) i mp max_ind =
     (if isnan mp then max_ind
      else if \<not> np_le x mp then argmax_from xs (Suc i) x i
      else argmax_from xs (Suc i) mp max_ind)"

definition argmax :: "npfloat list \<Rightarrow> nat" where
  "argmax xs = argmax_from (tl xs) 1 (hd xs) 0"

text \<open>\<open>np.argmax(a, axis=0)\<close> of an array with at least one row.\<close>

definition argmax_axis0 :: "npfloat list list \<Rightarrow> nat list" where
  "argmax_axis0 rows = map (\<lambda>j. argmax (column rows j)) [0..<ncols rows]"

text \<open>
  An entry of the array \<open>indeces\<close> that \<open>_cum_net_resp\<close> returns. Line 273 builds the
  array as \<open>np.ones(...)*node_lis[0]\<close>, an array of floats; the loop replaces it by the
  result of \<open>np.argmax\<close>, an array of integers. The difference shows at line 500 of
  \<open>brightness\<close>, where an entry indexes the list \<open>nodes\<close>: a list index that is a float
  raises TypeError.
\<close>

datatype index_value = IntIndex nat | FloatIndex nat

fun list_index :: "index_value \<Rightarrow> py_error + nat" where
  "list_index (IntIndex k) = Inr k"
| "list_index (FloatIndex k) = Inl TypeError"

fun list_indices :: "index_value list \<Rightarrow> py_error + nat list" where
  "list_indices [] = Inr []"
| "list_indices (v # vs) =
     (case list_index v of
        Inl err \<Rightarrow> Inl err
      | Inr k \<Rightarrow>
          (case list_indices vs of
             Inl err \<Rightarrow> Inl err
           | Inr ks \<Rightarrow> Inr (k # ks)))"

text \<open>
  \<open>_cum_net_resp\<close> (lines 271 to 284). The loop body computes \<open>updated_indeces\<close> (0 where
  the running maximum stays, 1 where the node's energy replaces it), takes the new
  running maximum, writes \<open>i\<close> over the entries that are 1, and assigns the result to
  \<open>indeces\<close>. A slot is removed once read; reading a slot that does not exist raises
  IOError, arrays of different lengths raise ValueError.
\<close>

fun cum_net_resp_loop ::
  "nat list \<Rightarrow> scratch \<Rightarrow> npfloat list \<Rightarrow> index_value list \<Rightarrow>
     py_error + (scratch \<times> npfloat list \<times> index_value list)"
where
  "cum_net_resp_loop [] sc cum indeces = Inr (sc, cum, indeces)"
| "cum_net_resp_loop (i # rest) sc cum indeces =
     (case sc i of
        None \<Rightarrow> Inl IOError
      | Some node_energy \<Rightarrow>
          if length node_energy \<noteq> length cum then Inl ValueError
          else let updated_indeces = argmax_axis0 [cum, node_energy];
                   temp = [cum, node_energy];
                   cum' = map (\<lambda>j. temp ! (updated_indeces ! j) ! j)
                              [0..<length updated_indeces];
                   updated_indeces' = map (\<lambda>u. if u = 1 then i else u) updated_indeces
               in cum_net_resp_loop rest (sc(i := None)) cum' (map IntIndex updated_indeces'))"

definition cum_net_resp ::
  "nat list \<Rightarrow> scratch \<Rightarrow> py_error + (scratch \<times> npfloat list \<times> index_value list)"
where
  "cum_net_resp node_lis sc =
     (case node_lis of
        [] \<Rightarrow> Inl IndexError
      | n0 # rest \<Rightarrow>
          (case sc n0 of
             None \<Rightarrow> Inl IOError
           | Some c \<Rightarrow>
               cum_net_resp_loop rest (sc(n0 := None)) c
                 (replicate (length c) (FloatIndex n0))))"

text \<open>
  \<open>brightness\<close>, lines 469 to 477: the reduction in memory. \<open>energy\<close> holds one row per
  node, in the order of the node indices. The result is \<open>cum_net_resp\<close> and, per sample,
  the index of the node that \<open>peak_nodes\<close> names.
\<close>

definition brightness_in_memory :: "npfloat list list \<Rightarrow> py_error + (npfloat list \<times> nat list)"
where
  "brightness_in_memory energy =
     (if energy = [] then Inl ValueError
      else if \<not> list_all (\<lambda>r. length r = ncols energy) energy then Inl ValueError
      else let indeces = argmax_axis0 energy in
           if indeces = [] then Inl IndexError
           else Inr (map (\<lambda>i. energy ! (indeces ! i) ! i) [0..<length indeces], indeces))"

text \<open>
  \<open>brightness\<close>, lines 486 to 501: the reduction from the scratch area, for the chunks
  \<open>indeces[0], ..., indeces[num_cores - 1]\<close>. The workers own disjoint slots, so they are
  run one after the other here; the first exception of a worker is the driver's. The
  result is \<open>cum_net_resp\<close> and, per sample, the index of the node that \<open>peak_nodes\<close>
  names: the entry of the winning chunk's \<open>indeces\<close>, read as a list index at line 500.
\<close>

fun run_workers ::
  "nat list list \<Rightarrow> scratch \<Rightarrow>
     py_error + (scratch \<times> (npfloat list \<times> index_value list) list)"
where
  "run_workers [] sc = Inr (sc, [])"
| "run_workers (node_lis # rest) sc =
     (case cum_net_resp node_lis sc of
        Inl err \<Rightarrow> Inl err
      | Inr (sc', resp, ix) \<Rightarrow>
          (case run_workers rest sc' of
             Inl err \<Rightarrow> Inl err
           | Inr (sc'', results) \<Rightarrow> Inr (sc'', (resp, ix) # results)))"

definition brightness_out_of_core ::
  "nat list list \<Rightarrow> scratch \<Rightarrow> py_error + (npfloat list \<times> nat list)"
where
  "brightness_out_of_core chunks sc =
     (case run_workers chunks sc of
        Inl err \<Rightarrow> Inl err
      | Inr (sc', results) \<Rightarrow>
          (let responses = map fst results;
               node_indeces = map snd results
           in if responses = [] then Inl ValueError
              else if \<not> list_all (\<lambda>r. length r = ncols responses) responses then Inl ValueError
              else let indeces = argmax_axis0 responses in
                   case list_indices (map (\<lambda>i. node_indeces ! (indeces ! i) ! i)
                                        [0..<length indeces]) of
                     Inl err \<Rightarrow> Inl err
                   | Inr peak \<Rightarrow>
                       Inr (map (\<lambda>j. responses ! (indeces ! j) ! j) [0..<length indeces],
                            peak)))"

text \<open>The scratch area after the stacking phase: slot \<open>i\<close> holds the energy of node \<open>i\<close>.\<close>

definition scratch_of :: "npfloat list list \<Rightarrow> scratch" where
  "scratch_of energy = (\<lambda>i. if i < length energy then Some (energy ! i) else None)"

text \<open>
  \<open>brightness\<close>, lines 447 to 451 and 480 to 487: the number of workers and the chunks.
  \<open>cores\<close> is \<open>par.bright_lights_par.cores\<close> and \<open>ncpu\<close> is \<open>cpu_count()\<close>. The division
  of line 480 is Python 2's integer division. Line 484 reads the loop variable \<open>i\<close> after
  the loop of line 482: when that loop has no iteration, \<open>i\<close> still holds the value
  \<open>i0\<close> it had before, which is \<open>len(nodes) - 1\<close>, left by the list comprehension of lines
  453 to 456 (a comprehension's variable is a variable of the function in Python 2).
\<close>

definition worker_count :: "nat \<Rightarrow> nat \<Rightarrow> nat \<Rightarrow> nat" where
  "worker_count cores ncpu n =
     (let num_cores = (if cores > n then n else cores)
      in if num_cores > ncpu then ncpu else num_cores)"

definition node_chunks :: "nat \<Rightarrow> nat \<Rightarrow> nat \<Rightarrow> nat list list" where
  "node_chunks n num_cores i0 =
     (let node_splits = n div num_cores;
          middle = map (\<lambda>i. [node_splits * i..<node_splits * (i + 1)]) [1..<num_cores - 1];
          i = (if [1..<num_cores - 1] = [] then i0 else last [1..<num_cores - 1])
      in [[0..<node_splits]] @ middle @ [[node_splits * (i + 1)..<n]])"

definition worker_chunks :: "nat \<Rightarrow> nat \<Rightarrow> nat list list" where
  "worker_chunks n num_cores = take num_cores (node_chunks n num_cores (n - 1))"

text \<open>
  The whole reduction of the out-of-core branch: \<open>Pool\<close> raises ValueError for a number
  of processes below one.
\<close>

definition brightness_reduce ::
  "nat \<Rightarrow> nat \<Rightarrow> npfloat list list \<Rightarrow> py_error + (npfloat list \<times> nat list)"
where
  "brightness_reduce cores ncpu energy =
     (let num_cores = worker_count cores ncpu (length energy)
      in if num_cores < 1 then Inl ValueError
         else brightness_out_of_core (worker_chunks (length energy) num_cores)
                (scratch_of energy))"

section \<open>Detections in the cumulative network response\<close>

text \<open>
  \<open>np.nan_to_num\<close>: NaN becomes zero, an infinity becomes the largest finite value of
  the array's type with the same sign. That value is the parameter \<open>fmax\<close>.
\<close>

fun nan_to_num1 :: "real \<Rightarrow> npfloat \<Rightarrow> npfloat" where
  "nan_to_num1 fmax NaN = Fin 0"
| "nan_to_num1 fmax PInf = Fin fmax"
| "nan_to_num1 fmax NInf = Fin (- fmax)"
| "nan_to_num1 fmax (Fin v) = Fin v"

definition nan_to_num :: "real \<Rightarrow> npfloat list \<Rightarrow> npfloat list" where
  "nan_to_num fmax xs = map (nan_to_num1 fmax) xs"

fun isfinite :: "npfloat \<Rightarrow> bool" where
  "isfinite (Fin v) = True"
| "isfinite _ = False"

fun fin_value :: "npfloat \<Rightarrow> real" where
  "fin_value (Fin v) = v"
| "fin_value _ = 0"

definition median :: "real list \<Rightarrow> real" where
  "median xs =
     (let s = sort xs; n = length xs
      in if even n then (s ! (n div 2 - 1) + s ! (n div 2)) / 2 else s ! (n div 2))"

text \<open>
  A detection is the tuple of the arguments of \<open>DETECTION\<close>: template name, detection
  time, number of channels, peak value, threshold, type and channels.
\<close>

type_synonym detection = "string \<times> real \<times> nat \<times> real \<times> real \<times> string \<times> string list"

fun make_detections ::
  "node list \<Rightarrow> real \<Rightarrow> real \<Rightarrow> string list \<Rightarrow> (real \<times> nat) list \<Rightarrow>
     py_error + detection list"
where
  "make_detections nodes samp_rate thresh realstations [] = Inr []"
| "make_detections nodes samp_rate thresh realstations (peak # peaks) =
     (if length nodes \<le> snd peak then Inl IndexError
      else if samp_rate = 0 then Inl ZeroDivisionError
      else case make_detections nodes samp_rate thresh realstations peaks of
             Inl err \<Rightarrow> Inl err
           | Inr ds \<Rightarrow>
               (case nodes ! snd peak of
                  (lat, lon, dep) \<Rightarrow>
                    Inr ((lat @ ''_'' @ lon @ ''_'' @ dep, real (snd peak) / samp_rate,
                          length realstations, fst peak, thresh, ''brightness'',
                          realstations) # ds)))"

text \<open>
  The part of \<open>_find_detections\<close> after line 309, on an array without NaN.
  \<open>find_peaks2\<close> is \<open>utils.findpeaks.find_peaks2\<close> and \<open>default_length\<close> is
  \<open>par.template_gen_par.length\<close>; both are parameters. A threshold type other than
  \<open>MAD\<close>, \<open>abs\<close> and \<open>RMS\<close> leaves \<open>thresh\<close> unbound at line 319; \<open>max\<close> of an empty
  array raises ValueError at line 320.
\<close>

definition pick_detections ::
  "(real list \<Rightarrow> real \<Rightarrow> real \<Rightarrow> (real \<times> nat) list) \<Rightarrow> real \<Rightarrow> real list \<Rightarrow> node list \<Rightarrow>
     real \<Rightarrow> string \<Rightarrow> real \<Rightarrow> string list \<Rightarrow> py_error + detection list"
where
  "pick_detections find_peaks2 default_length cnr nodes threshold thresh_type samp_rate
       realstations =
     (if thresh_type \<noteq> ''MAD'' \<and> thresh_type \<noteq> ''abs'' \<and> thresh_type \<noteq> ''RMS''
      then Inl UnboundLocalError
      else if cnr = [] then Inl ValueError
      else let thresh =
                 (if thresh_type = ''MAD'' then median (map abs cnr) * threshold
                  else if thresh_type = ''abs'' then threshold
                  else sqrt (mean (map (\<lambda>x. x\<^sup>2) cnr)) * threshold);
               peaks = find_peaks2 cnr thresh (default_length * samp_rate)
           in make_detections nodes samp_rate thresh realstations peaks)"

text \<open>
  \<open>_find_detections\<close>: lines 307 to 309 and then the rest on the replaced array.
\<close>

definition find_detections ::
  "real \<Rightarrow> (real list \<Rightarrow> real \<Rightarrow> real \<Rightarrow> (real \<times> nat) list) \<Rightarrow> real \<Rightarrow> npfloat list \<Rightarrow>
     node list \<Rightarrow> real \<Rightarrow> string \<Rightarrow> real \<Rightarrow> string list \<Rightarrow> py_error + detection list"
where
  "find_detections fmax find_peaks2 default_length resp nodes threshold thresh_type
       samp_rate realstations =
     (let cnr = nan_to_num fmax resp
      in if list_ex isnan cnr then Inl NansPresent
         else pick_detections find_peaks2 default_length (map fin_value cnr) nodes threshold
                thresh_type samp_rate realstations)"

text \<open>
  The precondition of the specification, in its own words: every value that is not
  finite is replaced with zero.
\<close>

definition spec_replace_nonfinite :: "npfloat list \<Rightarrow> npfloat list" where
  "spec_replace_nonfinite xs = map (\<lambda>x. if isfinite x then x else Fin 0) xs"

text \<open>The largest finite 64-bit float, the type of the energy arrays.\<close>

definition float64_max :: real where
  "float64_max = (2 - 1 / 2 ^ 52) * 2 ^ 1023"

section \<open>Coherence of a stream: \<open>coherance\<close>\<close>

text \<open>
  \<open>normxcorr2\<close> is \<open>core.match_filter.normxcorr2\<close>; the parameter \<open>ncc\<close> is its entry
  \<open>[0][0]\<close>. A stream with a channel shorter than the longest reaches
  \<open>warnings.warn\<close>, and the module level never imports \<open>warnings\<close>: NameError. \<open>np.max\<close>
  of an empty list raises ValueError; a single channel divides by zero at line 366.
\<close>

definition coherance :: "(real list \<Rightarrow> real list \<Rightarrow> real) \<Rightarrow> trace list \<Rightarrow> py_error + real"
where
  "coherance ncc stream =
     (if stream = [] then Inl ValueError
      else let maxlen = Max (set (map (\<lambda>tr. length (data tr)) stream)) in
        if list_ex (\<lambda>tr. length (data tr) \<noteq> maxlen) stream then Inl NameError
        else let n = length stream;
                 c = foldl (\<lambda>c i. foldl (\<lambda>c j. c + \<bar>ncc (data (stream ! i))
                                                       (data (stream ! j))\<bar>)
                                      c [i + 1..<n])
                       0 [0..<n]
             in if n * (n - 1) = 0 then Inl ZeroDivisionError
                else Inr (2 * c / real (n * (n - 1))))"

section \<open>The travel-time grid: \<open>_read_tt\<close>, \<open>_resample_grid\<close>, \<open>_rm_similarlags\<close>\<close>

text \<open>
  What \<open>_read_tt\<close> reads of its surroundings: \<open>glob.glob\<close>, the rows that \<open>csv.reader\<close>
  gives for a file (\<open>None\<close> when the file cannot be opened) and \<open>float\<close> on a string
  (\<open>None\<close> when it raises ValueError).
\<close>

record files =
  glob :: "string \<Rightarrow> string list"
  csv_rows :: "string \<Rightarrow> string list list option"

fun read_rows ::
  "(string \<Rightarrow> real option) \<Rightarrow> string list list \<Rightarrow> py_error + (node list \<times> real list)"
where
  "read_rows pyfloat [] = Inr ([], [])"
| "read_rows pyfloat (row # rows) =
     (if length row < 4 then Inl IndexError
      else case pyfloat (row ! 3) of
             None \<Rightarrow> Inl ValueError
           | Some t \<Rightarrow>
               (case read_rows pyfloat rows of
                  Inl err \<Rightarrow> Inl err
                | Inr (nodes, traveltime) \<Rightarrow>
                    Inr ((row ! 0, row ! 1, row ! 2) # nodes, t # traveltime)))"

text \<open>Lines 109 to 113: the conversion between the phases.\<close>

definition convert_phase :: "string \<Rightarrow> string \<Rightarrow> real list \<Rightarrow> real list" where
  "convert_phase phase phaseout traveltime =
     (if \<not> phase = phaseout
      then (if phase = ''S'' then map (\<lambda>t. t / 1.68) traveltime
            else map (\<lambda>t. t * 1.68) traveltime)
      else traveltime)"

fun read_gridfiles ::
  "files \<Rightarrow> (string \<Rightarrow> real option) \<Rightarrow> string \<Rightarrow> string \<Rightarrow> string list \<Rightarrow> node list \<Rightarrow>
     real list list option \<Rightarrow> py_error + (node list \<times> real list list option)"
where
  "read_gridfiles fs pyfloat phase phaseout [] allnodes alllags = Inr (allnodes, alllags)"
| "read_gridfiles fs pyfloat phase phaseout (gridfile # rest) allnodes alllags =
     (case csv_rows fs gridfile of
        None \<Rightarrow> Inl IOError
      | Some grid \<Rightarrow>
          (case read_rows pyfloat grid of
             Inl err \<Rightarrow> Inl err
           | Inr (nodes, tt) \<Rightarrow>
               (let traveltime = convert_phase phase phaseout tt in
                if traveltime = [] then Inl ValueError
                else let lags = map (\<lambda>t. t - Min (set traveltime)) traveltime in
                  case alllags of
                    None \<Rightarrow> read_gridfiles fs pyfloat phase phaseout rest nodes (Some [lags])
                  | Some rows \<Rightarrow>
                      if length lags \<noteq> ncols rows then Inl ValueError
                      else read_gridfiles fs pyfloat phase phaseout rest nodes
                             (Some (rows @ [lags])))))"

definition read_tt ::
  "files \<Rightarrow> (string \<Rightarrow> real option) \<Rightarrow> string \<Rightarrow> string list \<Rightarrow> string \<Rightarrow> string \<Rightarrow> real \<Rightarrow>
     py_error + (string list \<times> node list \<times> real list list)"
where
  "read_tt fs pyfloat path stations phase phaseout ps_ratio =
     (let gridfiles = concat (map (\<lambda>st. glob fs (path @ ''*.'' @ phase @ ''.'' @ st @
                                                  ''.time.csv'')) stations);
          stations_out = filter (\<lambda>st. glob fs (path @ ''*.'' @ phase @ ''.'' @ st @
                                                  ''*.csv'') \<noteq> []) stations
      in if stations_out = [] then Inl SystemExit
         else case read_gridfiles fs pyfloat phase phaseout gridfiles [] None of
                Inl err \<Rightarrow> Inl err
              | Inr (allnodes, None) \<Rightarrow> Inl UnboundLocalError
              | Inr (allnodes, Some alllags) \<Rightarrow> Inr (stations_out, allnodes, alllags))"

text \<open>
  \<open>_resample_grid\<close>: the loop of lines 158 to 163 and the reshape of line 166.
  \<open>contains_point\<close> is \<open>corners.contains_point\<close>. \<open>resamp_lags\<close> collects the columns
  \<open>lags[:, i]\<close> of the kept nodes; the reshape to \<open>(len(resamp_lags), len(stations))\<close>
  raises ValueError when the sizes differ, and \<open>.T\<close> gives one row per station.
\<close>

fun resample_loop ::
  "(string \<Rightarrow> real option) \<Rightarrow> (string \<times> string \<Rightarrow> bool) \<Rightarrow> real \<Rightarrow> real \<Rightarrow> real list list \<Rightarrow>
     node list \<Rightarrow> nat \<Rightarrow> py_error + (node list \<times> real list list)"
where
  "resample_loop pyfloat contains_point mindepth maxdepth lags [] i = Inr ([], [])"
| "resample_loop pyfloat contains_point mindepth maxdepth lags (nd # rest) i =
     (case nd of (lat, lon, dep) \<Rightarrow>
        (case pyfloat dep of
           None \<Rightarrow> Inl ValueError
         | Some d \<Rightarrow>
             if mindepth < d \<and> d < maxdepth \<and> contains_point (lat, lon)
             then (if ncols lags \<le> i then Inl IndexError
                   else case resample_loop pyfloat contains_point mindepth maxdepth lags
                               rest (Suc i) of
                          Inl err \<Rightarrow> Inl err
                        | Inr (resamp_nodes, resamp_lags) \<Rightarrow>
                            Inr (nd # resamp_nodes, column lags i # resamp_lags))
             else resample_loop pyfloat contains_point mindepth maxdepth lags rest (Suc i)))"

definition resample_grid ::
  "(string \<Rightarrow> real option) \<Rightarrow> (string \<times> string \<Rightarrow> bool) \<Rightarrow> string list \<Rightarrow> node list \<Rightarrow>
     real list list \<Rightarrow> real \<Rightarrow> real \<Rightarrow> py_error + (string list \<times> node list \<times> real list list)"
where
  "resample_grid pyfloat contains_point stations nodes lags mindepth maxdepth =
     (case resample_loop pyfloat contains_point mindepth maxdepth lags nodes 0 of
        Inl err \<Rightarrow> Inl err
      | Inr (resamp_nodes, resamp_lags) \<Rightarrow>
          if resamp_lags \<noteq> [] \<and> length lags \<noteq> length stations then Inl ValueError
          else Inr (stations, resamp_nodes,
                    map (\<lambda>s. map (\<lambda>col. col ! s) resamp_lags) [0..<length stations]))"

text \<open>The test of line 160 and 161 on one node, when its depth is a number.\<close>

definition node_kept ::
  "(string \<Rightarrow> real option) \<Rightarrow> (string \<times> string \<Rightarrow> bool) \<Rightarrow> real \<Rightarrow> real \<Rightarrow> node \<Rightarrow> bool"
where
  "node_kept pyfloat contains_point mindepth maxdepth nd =
     (case nd of (lat, lon, dep) \<Rightarrow>
        (case pyfloat dep of
           None \<Rightarrow> False
         | Some d \<Rightarrow> mindepth < d \<and> d < maxdepth \<and> contains_point (lat, lon)))"

text \<open>
  \<open>_rm_similarlags\<close>. Row \<open>i\<close> of the comparison is
  \<open>abs((lags.T - lags.T[i]).sum(axis=1)) > threshold\<close>: for every node \<open>k\<close>, the absolute
  value of the sum over the stations of \<open>lags[s][k] - lags[s][i]\<close>. \<open>netdif\<close> starts as
  the row of node 0 (line 201) and the loop of line 202 appends the rows of the nodes
  \<open>0, ..., len(nodes) - 1\<close>. \<open>lags.T[0]\<close> raises IndexError for an array without columns,
  and the reshape to \<open>(1, len(nodes))\<close> raises ValueError when the number of columns is
  not \<open>len(nodes)\<close>.
\<close>

definition netdif_row :: "real list list \<Rightarrow> real \<Rightarrow> nat \<Rightarrow> bool list" where
  "netdif_row lags threshold i =
     map (\<lambda>k. \<bar>sum_list (map (\<lambda>r. r ! k - r ! i) lags)\<bar> > threshold) [0..<ncols lags]"

definition netdif :: "real list list \<Rightarrow> real \<Rightarrow> nat \<Rightarrow> bool list list" where
  "netdif lags threshold n =
     netdif_row lags threshold 0 # map (netdif_row lags threshold) [0..<n]"

fun keep_loop ::
  "bool list list \<Rightarrow> node list \<Rightarrow> nat list \<Rightarrow> nat list \<Rightarrow> node list \<Rightarrow> nat list \<times> node list"
where
  "keep_loop nd nodes [] node_indeces nodes_out = (node_indeces, nodes_out)"
| "keep_loop nd nodes (i # rest) node_indeces nodes_out =
     (if list_all (\<lambda>k. nd ! i ! k) node_indeces
      then keep_loop nd nodes rest (node_indeces @ [i]) (nodes_out @ [nodes ! i])
      else keep_loop nd nodes rest node_indeces nodes_out)"

definition rm_similarlags ::
  "string list \<Rightarrow> node list \<Rightarrow> real list list \<Rightarrow> real \<Rightarrow>
     py_error + (string list \<times> node list \<times> real list list)"
where
  "rm_similarlags stations nodes lags threshold =
     (if ncols lags = 0 then Inl IndexError
      else if ncols lags \<noteq> length nodes then Inl ValueError
      else case keep_loop (netdif lags threshold (length nodes)) nodes
                  [1..<length nodes] [0] [nodes ! 0] of
             (node_indeces, nodes_out) \<Rightarrow>
               Inr (stations, nodes_out, map (\<lambda>r. map (\<lambda>i. r ! i) node_indeces) lags))"

text \<open>
  The distance of the specification: the sum over the stations of the absolute
  difference of the lags of two nodes.
\<close>

definition l1_moveout :: "real list list \<Rightarrow> nat \<Rightarrow> nat \<Rightarrow> real" where
  "l1_moveout lags i j = sum_list (map (\<lambda>r. \<bar>r ! i - r ! j\<bar>) lags)"

text \<open>
  The shape the module documents for its grid: one row of lags per station and one
  column per node.
\<close>

definition aligned :: "string list \<Rightarrow> node list \<Rightarrow> real list list \<Rightarrow> bool" where
  "aligned stations nodes lags =
     (length lags = length stations \<and> list_all (\<lambda>r. length r = length nodes) lags)"

section \<open>Lag shift of the energy envelope\<close>

lemma py_round_nat: "py_round (real n) = int n"
  unfolding py_round_def by (simp add: floor_eq_iff)

lemma py_round_0: "py_round 0 = 0"
  using py_round_nat [of 0] by simp

lemma py_round_1: "py_round 1 = 1"
  using py_round_nat [of 1] by simp

text \<open>
  C3 (as the code has it). With \<open>p\<close> the rounded float product of the lag and the
  sampling rate, not negative, the envelope keeps the length of the data; its sample
  \<open>t\<close> is the squared amplitude of sample \<open>t + p\<close> while that sample exists and zero
  afterwards: the zeros are appended at the end and the first \<open>p\<close> samples are dropped,
  so the energy at \<open>t\<close> is that of the arrival \<open>L\<close> seconds after \<open>t\<close>.
\<close>

theorem lagged_energy_shifts_forward:
  assumes "0 \<le> py_round (fmul lag rate)"
  shows "\<exists>e. lagged_energy fmul d lag rate = Inr e \<and> length e = length d \<and>
           (\<forall>t < length d. e ! t =
              (if t + nat (py_round (fmul lag rate)) < length d
               then (d ! (t + nat (py_round (fmul lag rate))))\<^sup>2 else 0))"
proof -
  define p where "p = nat (py_round (fmul lag rate))"
  define e where "e = drop p (map (\<lambda>x. x\<^sup>2) (d @ replicate p (0::real)))"
  have run: "lagged_energy fmul d lag rate = Inr e"
    using assms by (simp add: lagged_energy_def Let_def e_def p_def)
  have len: "length e = length d"
    by (simp add: e_def)
  have "e ! t = (if t + p < length d then (d ! (t + p))\<^sup>2 else 0)" if "t < length d" for t
  proof -
    have "e ! t = (map (\<lambda>x. x\<^sup>2) (d @ replicate p (0::real))) ! (p + t)"
      unfolding e_def by (rule nth_drop) simp
    also have "\<dots> = ((d @ replicate p (0::real)) ! (p + t))\<^sup>2"
      by (rule nth_map) (use that in simp)
    also have "\<dots> = (if t + p < length d then (d ! (t + p))\<^sup>2 else 0)"
      using that by (simp add: nth_append add.commute)
    finally show ?thesis .
  qed
  with run len show ?thesis
    unfolding p_def by blast
qed

text \<open>
  Two runs of the theorem. The product \<open>1.0 * 1.0\<close> is exact. The double nearest to
  \<open>0.35\<close> lies below \<open>0.35\<close>, and its float product with \<open>10.0\<close> is \<open>3.5\<close>: the pad has
  four samples, where the exact product would give three.
\<close>

theorem lagged_energy_shifts_forward_witness:
  "lagged_energy (*) [1, 2, 3] 1 1 = Inr [4, 9, 0] \<and>
   lagged_energy (\<lambda>a b. 7 / 2) [1, 2, 3, 4, 5] (6305039478318694 / 2 ^ 54) 10 =
     Inr [25, 0, 0, 0, 0]"
proof -
  have r: "py_round ((*) 1 1) = 1"
    using py_round_nat [of 1] by simp
  obtain e where e: "lagged_energy (*) [1, 2, 3] 1 1 = Inr e" "length e = 3"
    and nth: "\<forall>t < 3. e ! t = (if t + 1 < 3 then ([1, 2, 3 :: real] ! (t + 1))\<^sup>2 else 0)"
    using lagged_energy_shifts_forward [of "(*)" 1 1 "[1, 2, 3]"] r by auto
  have "e ! 0 = 4" "e ! 1 = 9" "e ! 2 = 0"
    using nth by simp_all
  then have "e = [4, 9, 0]"
    using e(2) by (auto simp: list_eq_iff_nth_eq less_Suc_eq numeral_3_eq_3 numeral_2_eq_2)
  with e(1) have a: "lagged_energy (*) [1, 2, 3] 1 1 = Inr [4, 9, 0]"
    by simp
  have r4: "py_round (7 / 2) = 4"
    by (simp add: py_round_def)
  obtain e' where e': "lagged_energy (\<lambda>a b. 7 / 2) [1, 2, 3, 4, 5]
        (6305039478318694 / 2 ^ 54) 10 = Inr e'" "length e' = 5"
    and nth': "\<forall>t < 5. e' ! t =
        (if t + 4 < 5 then ([1, 2, 3, 4, 5 :: real] ! (t + 4))\<^sup>2 else 0)"
    using lagged_energy_shifts_forward [of "\<lambda>a b. 7 / 2" "6305039478318694 / 2 ^ 54" 10
        "[1, 2, 3, 4, 5]"] r4 by auto
  have "e' ! 0 = 25" "e' ! 1 = 0" "e' ! 2 = 0" "e' ! 3 = 0" "e' ! 4 = 0"
    using nth' by simp_all
  then have "e' = [25, 0, 0, 0, 0]"
    using e'(2) by (auto simp: list_eq_iff_nth_eq less_Suc_eq numeral_eq_Suc)
  with e'(1) a show ?thesis
    by simp
qed

text \<open>
  C3 (as the specification words it) fails: for the data \<open>[1, 2, 3]\<close> and a lag of one
  sample the code returns \<open>[4, 9, 0]\<close>, the specification's padding at the start gives
  \<open>[0, 1, 4]\<close>.
\<close>

theorem lagged_energy_not_padded_at_start:
  "lagged_energy (*) [1, 2, 3] 1 1 = Inr [4, 9, 0] \<and>
   spec_lagged_energy (*) [1, 2, 3] 1 1 = [0, 1, 4] \<and>
   lagged_energy (*) [1, 2, 3] 1 1 \<noteq> Inr (spec_lagged_energy (*) [1, 2, 3] 1 1)"
proof -
  have r: "py_round ((*) 1 1) = 1"
    using py_round_nat [of 1] by simp
  have a: "lagged_energy (*) [1, 2, 3] 1 1 = Inr [4, 9, 0]"
    using r by (simp add: lagged_energy_def Let_def)
  have b: "spec_lagged_energy (*) [1, 2, 3] 1 1 = [0, 1, 4]"
    using r by (simp add: spec_lagged_energy_def)
  show ?thesis using a b by simp
qed

section \<open>Station matching, clipping and normalisation in \<open>_node_loop\<close>\<close>

lemma lagged_energy_length:
  "lagged_energy fmul d lag rate = Inr le \<Longrightarrow> length le = length d"
  by (auto simp: lagged_energy_def Let_def split: if_splits)

lemma length_normalise: "length (normalise xs) = length xs"
  by (simp add: normalise_def)

lemma ncols_snoc: "rows \<noteq> [] \<Longrightarrow> ncols (rows @ [r]) = ncols rows"
  by (cases rows) (simp_all add: ncols_def)

lemma node_loop_stream_ok:
  assumes "\<forall>tr \<in> set trs. matching stations tr \<noteq> [] \<longrightarrow>
             hd (matching stations tr) < length lags \<and>
             lagged_energy fmul (data tr) (lags ! hd (matching stations tr)) (sampling_rate tr) =
               Inr (env tr) \<and>
             length (data tr) = n"
    and "case energy of None \<Rightarrow> True | Some rows \<Rightarrow> rows \<noteq> [] \<and> ncols rows = n"
  shows "node_loop_stream fmul c stations lags trs w energy =
           Inr (w @ concat (map (trace_warnings stations) trs),
                append_rows energy
                  (map (\<lambda>tr. normalise (clip 0 (c * mean (env tr)) (env tr)))
                     (matched stations trs)))"
  using assms
proof (induction trs arbitrary: w energy)
  case Nil
  then show ?case by (simp add: matched_def append_rows_def split: option.splits)
next
  case (Cons tr trs)
  have rest: "\<forall>tr \<in> set trs. matching stations tr \<noteq> [] \<longrightarrow>
             hd (matching stations tr) < length lags \<and>
             lagged_energy fmul (data tr) (lags ! hd (matching stations tr)) (sampling_rate tr) =
               Inr (env tr) \<and>
             length (data tr) = n"
    using Cons.prems(1) by simp
  show ?case
  proof (cases "matching stations tr = []")
    case True
    have tw: "trace_warnings stations tr = [''No station match'']"
      using True by (simp add: trace_warnings_def)
    have "node_loop_stream fmul c stations lags (tr # trs) w energy =
            node_loop_stream fmul c stations lags trs (w @ [''No station match'']) energy"
      using True by simp
    also have "\<dots> = Inr ((w @ [''No station match'']) @ concat (map (trace_warnings stations) trs),
                append_rows energy (map (\<lambda>tr. normalise (clip 0 (c * mean (env tr)) (env tr)))
                     (matched stations trs)))"
      using rest Cons.prems(2) by (rule Cons.IH)
    finally show ?thesis
      using True tw by (simp add: matched_def)
  next
    case False
    then have ok: "hd (matching stations tr) < length lags"
      "lagged_energy fmul (data tr) (lags ! hd (matching stations tr)) (sampling_rate tr) =
         Inr (env tr)"
      "length (data tr) = n"
      using Cons.prems(1) by simp_all
    define w1 where "w1 = (if length (matching stations tr) > 1 then w @ [''Too many stations''] else w)"
    have w1: "w1 = w @ trace_warnings stations tr"
      using False by (simp add: w1_def trace_warnings_def)
    define row where "row = normalise (clip 0 (c * mean (env tr)) (env tr))"
    have "length (env tr) = n"
      using lagged_energy_length [OF ok(2)] ok(3) by simp
    then have lrow: "length row = n"
      by (simp add: row_def length_normalise clip_def)
    define energy' where "energy' = (case energy of None \<Rightarrow> Some [row] | Some rows \<Rightarrow> Some (rows @ [row]))"
    have step: "node_loop_stream fmul c stations lags (tr # trs) w energy =
            node_loop_stream fmul c stations lags trs w1 energy'"
      using False ok Cons.prems(2) lrow
      by (simp add: Let_def w1_def energy'_def row_def split: option.splits)
    have inv: "case energy' of None \<Rightarrow> True | Some rows \<Rightarrow> rows \<noteq> [] \<and> ncols rows = n"
    proof (cases energy)
      case None
      then show ?thesis using lrow by (simp add: energy'_def ncols_def)
    next
      case (Some rows)
      then show ?thesis using Cons.prems(2) by (simp add: energy'_def ncols_snoc)
    qed
    have "node_loop_stream fmul c stations lags trs w1 energy' =
            Inr (w1 @ concat (map (trace_warnings stations) trs),
                 append_rows energy' (map (\<lambda>tr. normalise (clip 0 (c * mean (env tr)) (env tr)))
                     (matched stations trs)))"
      using rest inv by (rule Cons.IH)
    moreover have "append_rows energy' (map (\<lambda>tr. normalise (clip 0 (c * mean (env tr)) (env tr)))
                     (matched stations trs)) =
        append_rows energy (map (\<lambda>tr. normalise (clip 0 (c * mean (env tr)) (env tr)))
                     (matched stations (tr # trs)))"
      using False by (simp add: append_rows_def energy'_def matched_def row_def split: option.splits)
    ultimately show ?thesis
      using step w1 by simp
  qed
qed

lemma stack_energy_rows:
  assumes "\<forall>tr \<in> set stream. matching stations tr \<noteq> [] \<longrightarrow>
             hd (matching stations tr) < length lags \<and>
             lagged_energy fmul (data tr) (lags ! hd (matching stations tr)) (sampling_rate tr) =
               Inr (env tr) \<and>
             length (data tr) = n"
  shows "stack_energy fmul c stations lags stream =
           (if matched stations stream = [] then Inl UnboundLocalError
            else Inr (concat (map (trace_warnings stations) stream),
                      sum_axis0 (map (\<lambda>tr. normalise (clip 0 (c * mean (env tr)) (env tr)))
                                   (matched stations stream))))"
proof -
  have "node_loop_stream fmul c stations lags stream [] None =
      Inr ([] @ concat (map (trace_warnings stations) stream),
           append_rows None (map (\<lambda>tr. normalise (clip 0 (c * mean (env tr)) (env tr)))
                               (matched stations stream)))"
    using assms by (rule node_loop_stream_ok) simp
  then show ?thesis
    by (simp add: stack_energy_def append_rows_def)
qed

lemma foldl_np_add_Fin: "foldl np_add (Fin a) (map (\<lambda>x. Fin (f x)) xs) = Fin (a + sum_list (map f xs))"
  by (induction xs arbitrary: a) (simp_all add: add.assoc)

lemma ncols_rows:
  assumes "rows \<noteq> []" "\<forall>r \<in> set rows. length r = n"
  shows "ncols rows = n"
  using assms by (cases rows) (simp_all add: ncols_def)

text \<open>
  C6 (as the code has it). The loop runs over the traces of the stream, and the match is
  of the station list against the trace's station name: a trace with several entries of
  the station list of its name is stacked with the lag of the first such entry after the
  warning \<open>Too many stations\<close>; a trace with no entry is skipped with the warning
  \<open>No station match\<close>. Every trace with an entry adds its row (\<open>env tr\<close> is its
  lagged energy), so several channels of one station all add theirs. With at least one
  such trace the function returns; with none it raises at line 253.
\<close>

theorem station_matching_is_per_trace:
  assumes "\<forall>tr \<in> set stream. matching stations tr \<noteq> [] \<longrightarrow>
             hd (matching stations tr) < length lags \<and>
             lagged_energy fmul (data tr) (lags ! hd (matching stations tr)) (sampling_rate tr) =
               Inr (env tr) \<and>
             length (data tr) = n"
  shows "stack_energy fmul c stations lags stream =
     (if filter (\<lambda>tr. matching stations tr \<noteq> []) stream = [] then Inl UnboundLocalError
      else Inr (concat (map (\<lambda>tr. if length (matching stations tr) > 1 then [''Too many stations'']
                                   else if matching stations tr = [] then [''No station match'']
                                   else []) stream),
                sum_axis0 (map (\<lambda>tr. normalise (clip 0 (c * mean (env tr)) (env tr)))
                            (filter (\<lambda>tr. matching stations tr \<noteq> []) stream))))"
proof -
  have "trace_warnings stations = (\<lambda>tr. if length (matching stations tr) > 1 then [''Too many stations'']
                             else if matching stations tr = [] then [''No station match'']
                             else [])"
    by (rule ext) (simp add: trace_warnings_def)
  then show ?thesis
    using stack_energy_rows [OF assms, of c] by (simp add: matched_def)
qed

lemma sum_axis0_two:
  "sum_axis0 [[Fin a, Fin b], [Fin c, Fin d]] = [Fin (a + c), Fin (b + d)]"
  by (simp add: sum_axis0_def ncols_def column_def upt_rec)

lemma sum_axis0_one: "sum_axis0 [[Fin a, Fin b]] = [Fin a, Fin b]"
  by (simp add: sum_axis0_def ncols_def column_def upt_rec)

lemma row_ones: "normalise (clip 0 (2 * mean [1, 1]) [1, 1]) = [Fin 1, Fin 1]"
proof -
  have "clip 0 (2 * mean [1, 1]) [1, 1] = [1, 1]"
    by (simp add: clip_def mean_def)
  moreover have "rms [1, 1] = 1"
    by (simp add: rms_def mean_def)
  ultimately show ?thesis
    by (simp add: normalise_def)
qed

lemma lagged_ones: "lagged_energy (*) [1, 1] 0 1 = Inr [1, 1]"
  "lagged_energy (*) [- 1, 1] 0 1 = Inr [1, 1]"
  by (simp_all add: lagged_energy_def py_round_0)

lemma envelope_ones: "envelope (*) [1, 1] 0 1 = [1, 1]"
  by (simp add: envelope_def py_round_0)

theorem station_matching_is_per_trace_witness:
  "stack_energy (*) 2 [''A'', ''B'', ''A''] [0, 0, 1]
     [\<lparr>station = ''A'', sampling_rate = 1, data = [1, 1]\<rparr>,
      \<lparr>station = ''C'', sampling_rate = 1, data = [5, 5]\<rparr>,
      \<lparr>station = ''A'', sampling_rate = 1, data = [1, 1]\<rparr>]
   = Inr ([''Too many stations'', ''No station match'', ''Too many stations''],
          [Fin 2, Fin 2]) \<and>
   stack_energy (*) 2 [''A'', ''B'', ''A''] [0, 0, 1]
     [\<lparr>station = ''C'', sampling_rate = 1, data = [5, 5]\<rparr>] = Inl UnboundLocalError"
proof -
  define tA where "tA = \<lparr>station = ''A'', sampling_rate = 1, data = [1, 1 :: real]\<rparr>"
  define tC where "tC = \<lparr>station = ''C'', sampling_rate = 1, data = [5, 5 :: real]\<rparr>"
  define S where "S = [''A'', ''B'', ''A'']"
  define L where "L = [0, 0, 1 :: real]"
  have f: "station tA = ''A''" "sampling_rate tA = 1" "data tA = [1, 1]" "station tC = ''C''"
    by (simp_all add: tA_def tC_def)
  have m: "matching S tA = [0, 2]" "matching S tC = []"
    by (simp_all add: matching_def f S_def upt_rec)
  have h: "\<forall>tr \<in> set [tA, tC, tA]. matching S tr \<noteq> [] \<longrightarrow>
             hd (matching S tr) < length L \<and>
             lagged_energy (*) (data tr) (L ! hd (matching S tr)) (sampling_rate tr) =
               Inr ((\<lambda>tr. [1, 1]) tr) \<and>
             length (data tr) = 2"
    by (simp add: m f L_def lagged_ones)
  have h': "\<forall>tr \<in> set [tC]. matching S tr \<noteq> [] \<longrightarrow>
             hd (matching S tr) < length L \<and>
             lagged_energy (*) (data tr) (L ! hd (matching S tr)) (sampling_rate tr) =
               Inr ((\<lambda>tr. [1, 1]) tr) \<and>
             length (data tr) = 2"
    by (simp add: m)
  have a: "stack_energy (*) 2 S L [tA, tC, tA] =
      Inr ([''Too many stations'', ''No station match'', ''Too many stations''], [Fin 2, Fin 2])"
    using station_matching_is_per_trace [OF h, of 2] by (simp add: m row_ones sum_axis0_two)
  have b: "stack_energy (*) 2 S L [tC] = Inl UnboundLocalError"
    using station_matching_is_per_trace [OF h', of 2] by (simp add: m)
  show ?thesis
    using a b unfolding S_def L_def tA_def tC_def by simp
qed

text \<open>
  C6 (as the specification words it) fails. Two channels of the one station \<open>A\<close>: the
  code stacks both and warns of nothing, the specification's policy stacks the first and
  warns. A station \<open>B\<close> without a channel: the code warns of nothing, the policy warns.
\<close>

theorem station_matching_not_per_station:
  "stack_energy (*) 2 [''A''] [0]
     [\<lparr>station = ''A'', sampling_rate = 1, data = [1, 1]\<rparr>,
      \<lparr>station = ''A'', sampling_rate = 1, data = [1, 1]\<rparr>]
     = Inr ([], [Fin 2, Fin 2]) \<and>
   spec_stack_energy (*) 2 [''A''] [0]
     [\<lparr>station = ''A'', sampling_rate = 1, data = [1, 1]\<rparr>,
      \<lparr>station = ''A'', sampling_rate = 1, data = [1, 1]\<rparr>]
     = ([''Too many stations''], [Fin 1, Fin 1]) \<and>
   stack_energy (*) 2 [''A'', ''B''] [0, 0]
     [\<lparr>station = ''A'', sampling_rate = 1, data = [1, 1]\<rparr>]
     = Inr ([], [Fin 1, Fin 1]) \<and>
   spec_stack_energy (*) 2 [''A'', ''B''] [0, 0]
     [\<lparr>station = ''A'', sampling_rate = 1, data = [1, 1]\<rparr>]
     = ([''No station match''], [Fin 1, Fin 1])"
proof -
  define tA where "tA = \<lparr>station = ''A'', sampling_rate = 1, data = [1, 1 :: real]\<rparr>"
  have f: "station tA = ''A''" "sampling_rate tA = 1" "data tA = [1, 1]"
    by (simp_all add: tA_def)
  have m: "matching [''A''] tA = [0]" "matching [''A'', ''B''] tA = [0]"
    by (simp_all add: matching_def f upt_rec)
  have tw: "trace_warnings [''A''] tA = []" "trace_warnings [''A'', ''B''] tA = []"
    by (simp_all add: trace_warnings_def m)
  have ms: "matched [''A''] [tA, tA] = [tA, tA]" "matched [''A'', ''B''] [tA] = [tA]"
    by (simp_all add: matched_def m)
  have a: "stack_energy (*) 2 [''A''] [0] [tA, tA] = Inr ([], [Fin 2, Fin 2])"
    using stack_energy_rows [of "[tA, tA]" "[''A'']" "[0]" "(*)" "\<lambda>tr. [1, 1]" 2 2]
    by (simp add: m f lagged_ones ms tw row_ones sum_axis0_two)
  have c: "stack_energy (*) 2 [''A'', ''B''] [0, 0] [tA] = Inr ([], [Fin 1, Fin 1])"
    using stack_energy_rows [of "[tA]" "[''A'', ''B'']" "[0, 0]" "(*)" "\<lambda>tr. [1, 1]" 2 2]
    by (simp add: m f lagged_ones ms tw row_ones sum_axis0_one)
  have ch: "spec_station_channels [tA, tA] ''A'' = [tA, tA]"
    "spec_station_channels [tA] ''A'' = [tA]" "spec_station_channels [tA] ''B'' = []"
    by (simp_all add: spec_station_channels_def f)
  have b: "spec_stack_energy (*) 2 [''A''] [0] [tA, tA] = ([''Too many stations''], [Fin 1, Fin 1])"
    by (simp add: spec_stack_energy_def spec_station_warnings_def spec_station_rows_def ch f
        envelope_ones row_ones sum_axis0_one)
  have d: "spec_stack_energy (*) 2 [''A'', ''B''] [0, 0] [tA] = ([''No station match''], [Fin 1, Fin 1])"
    by (simp add: spec_stack_energy_def spec_station_warnings_def spec_station_rows_def ch f
        envelope_ones row_ones sum_axis0_one upt_rec)
  show ?thesis
    using a b c d unfolding tA_def by simp
qed

text \<open>
  C7 (as the code has it). \<open>ms\<close> are the channels of the stream whose station name is
  in the station list, \<open>env tr\<close> is the lagged energy envelope of such a channel and
  \<open>cl tr\<close> that envelope clipped to \<open>[0, clip_level * mean]\<close>. When every such channel
  has its lag, a pad length that is not negative, the common data length \<open>n\<close> and a
  clipped envelope whose root mean square is not zero, \<open>_node_loop\<close> returns a trace of
  length \<open>n\<close> whose sample \<open>t\<close> is the sum, over the channels \<open>ms\<close>, of the clipped
  envelope divided by its root mean square: one envelope per matched channel.
\<close>

theorem node_energy_is_sum_of_normalised_envelopes:
  assumes "ms = filter (\<lambda>tr. matching stations tr \<noteq> []) stream" and "ms \<noteq> []"
    and "\<forall>tr \<in> set ms.
           hd (matching stations tr) < length lags \<and>
           lagged_energy fmul (data tr) (lags ! hd (matching stations tr)) (sampling_rate tr) =
             Inr (env tr) \<and>
           length (data tr) = n"
    and "\<forall>tr \<in> set ms.
           cl tr = map (\<lambda>x. min (c * (sum_list (env tr) / real (length (env tr)))) (max 0 x))
                     (env tr)"
    and "\<forall>tr \<in> set ms. sqrt (sum_list (map (\<lambda>x. x\<^sup>2) (cl tr)) / real (length (cl tr))) \<noteq> 0"
  shows "\<exists>w e. stack_energy fmul c stations lags stream = Inr (w, e) \<and> length e = n \<and>
           (\<forall>t < n. e ! t =
              Fin (\<Sum>tr \<leftarrow> ms. cl tr ! t /
                     sqrt (sum_list (map (\<lambda>x. x\<^sup>2) (cl tr)) / real (length (cl tr)))))"
proof -
  define rows where "rows = map (\<lambda>tr. normalise (clip 0 (c * mean (env tr)) (env tr))) ms"
  define val where "val = (\<lambda>t tr. cl tr ! t /
                     sqrt (sum_list (map (\<lambda>x. x\<^sup>2) (cl tr)) / real (length (cl tr))))"
  have ms: "ms = matched stations stream"
    using assms(1) by (simp add: matched_def)
  have ok: "\<forall>tr \<in> set stream. matching stations tr \<noteq> [] \<longrightarrow>
             hd (matching stations tr) < length lags \<and>
             lagged_energy fmul (data tr) (lags ! hd (matching stations tr)) (sampling_rate tr) =
               Inr (env tr) \<and>
             length (data tr) = n"
    using assms(1,3) by simp
  have run: "stack_energy fmul c stations lags stream =
      Inr (concat (map (trace_warnings stations) stream), sum_axis0 rows)"
    using stack_energy_rows [OF ok, of c] assms(2) by (simp add: ms rows_def)
  have len_env: "length (env tr) = n" if "tr \<in> set ms" for tr
    using that assms(3) lagged_energy_length by fastforce
  have clip_cl: "clip 0 (c * mean (env tr)) (env tr) = cl tr" if "tr \<in> set ms" for tr
    using that assms(4) by (simp add: clip_def mean_def)
  have len_cl: "length (cl tr) = n" if "tr \<in> set ms" for tr
    using that assms(4) len_env by simp
  have rms_cl: "rms (cl tr) = sqrt (sum_list (map (\<lambda>x. x\<^sup>2) (cl tr)) / real (length (cl tr)))"
    for tr
    by (simp add: rms_def mean_def)
  have row: "normalise (clip 0 (c * mean (env tr)) (env tr)) =
      map (\<lambda>x. Fin (x / sqrt (sum_list (map (\<lambda>x. x\<^sup>2) (cl tr)) / real (length (cl tr)))))
        (cl tr)" if "tr \<in> set ms" for tr
    using that assms(5) by (simp add: clip_cl normalise_def rms_cl)
  have len_row: "\<forall>r \<in> set rows. length r = n"
    using len_cl by (auto simp: rows_def row)
  have "rows \<noteq> []"
    using assms(2) by (simp add: rows_def)
  then have nc: "ncols rows = n"
    using len_row by (rule ncols_rows)
  have row_nth: "normalise (clip 0 (c * mean (env tr)) (env tr)) ! t = Fin (val t tr)"
    if "tr \<in> set ms" "t < n" for tr t
    using that len_cl by (simp add: row val_def)
  have "sum_axis0 rows ! t = Fin (sum_list (map (val t) ms))" if "t < n" for t
  proof -
    have "column rows t = map (\<lambda>tr. Fin (val t tr)) ms"
      using that row_nth by (simp add: column_def rows_def)
    then have "foldl np_add (Fin 0) (column rows t) = Fin (0 + sum_list (map (val t) ms))"
      by (simp only: foldl_np_add_Fin)
    then show ?thesis
      using that nc by (simp add: sum_axis0_def)
  qed
  moreover have "length (sum_axis0 rows) = n"
    using nc by (simp add: sum_axis0_def)
  ultimately show ?thesis
    using run unfolding val_def by blast
qed

theorem node_energy_is_sum_of_normalised_envelopes_witness:
  "\<exists>w. stack_energy (*) 2 [''A'', ''B''] [0, 1]
        [\<lparr>station = ''A'', sampling_rate = 1, data = [1, 1, 1, 1]\<rparr>,
         \<lparr>station = ''B'', sampling_rate = 1, data = [9, 2, 0, 0]\<rparr>]
      = Inr (w, [Fin 3, Fin 1, Fin 1, Fin 1])"
proof -
  define tA where "tA = \<lparr>station = ''A'', sampling_rate = 1, data = [1, 1, 1, 1 :: real]\<rparr>"
  define tB where "tB = \<lparr>station = ''B'', sampling_rate = 1, data = [9, 2, 0, 0 :: real]\<rparr>"
  define S where "S = [''A'', ''B'']"
  define L where "L = [0, 1 :: real]"
  define env where
    "env = (\<lambda>tr :: trace. if station tr = ''A'' then [1, 1, 1, 1 :: real] else [4, 0, 0, 0])"
  define cl where
    "cl = (\<lambda>tr :: trace. if station tr = ''A'' then [1, 1, 1, 1 :: real] else [2, 0, 0, 0])"
  have f: "station tA = ''A''" "sampling_rate tA = 1" "data tA = [1, 1, 1, 1]"
    "station tB = ''B''" "sampling_rate tB = 1" "data tB = [9, 2, 0, 0]"
    by (simp_all add: tA_def tB_def)
  have m: "matching S tA = [0]" "matching S tB = [1]"
    by (simp_all add: matching_def f S_def upt_rec)
  have e: "env tA = [1, 1, 1, 1]" "env tB = [4, 0, 0, 0]" "cl tA = [1, 1, 1, 1]"
    "cl tB = [2, 0, 0, 0]"
    by (simp_all add: env_def cl_def f)
  have la: "lagged_energy (*) (data tA) (L ! hd (matching S tA)) (sampling_rate tA) = Inr (env tA)"
    by (simp add: lagged_energy_def m f e L_def py_round_0)
  have lb: "lagged_energy (*) (data tB) (L ! hd (matching S tB)) (sampling_rate tB) = Inr (env tB)"
    by (simp add: lagged_energy_def m f e L_def py_round_1)
  have h1: "[tA, tB] = filter (\<lambda>tr. matching S tr \<noteq> []) [tA, tB]"
    by (simp add: m)
  have h2: "[tA, tB] \<noteq> []"
    by simp
  have h3: "\<forall>tr \<in> set [tA, tB].
           hd (matching S tr) < length L \<and>
           lagged_energy (*) (data tr) (L ! hd (matching S tr)) (sampling_rate tr) = Inr (env tr) \<and>
           length (data tr) = 4"
    using la lb by (simp add: m f L_def)
  have h4: "\<forall>tr \<in> set [tA, tB].
           cl tr = map (\<lambda>x. min (2 * (sum_list (env tr) / real (length (env tr)))) (max 0 x))
                     (env tr)"
    by (simp add: e)
  have h5: "\<forall>tr \<in> set [tA, tB].
      sqrt (sum_list (map (\<lambda>x. x\<^sup>2) (cl tr)) / real (length (cl tr))) \<noteq> 0"
    by (simp add: e)
  from node_energy_is_sum_of_normalised_envelopes [OF h1 h2 h3 h4 h5]
  obtain w en where run: "stack_energy (*) 2 S L [tA, tB] = Inr (w, en)" and len: "length en = 4"
    and nth: "\<forall>t < 4. en ! t = Fin (\<Sum>tr \<leftarrow> [tA, tB]. cl tr ! t /
                     sqrt (sum_list (map (\<lambda>x. x\<^sup>2) (cl tr)) / real (length (cl tr))))"
    by blast
  have "en ! 0 = Fin 3" "en ! 1 = Fin 1" "en ! 2 = Fin 1" "en ! 3 = Fin 1"
    using nth by (simp_all add: e)
  then have "en = [Fin 3, Fin 1, Fin 1, Fin 1]"
    using len by (auto simp: list_eq_iff_nth_eq less_Suc_eq numeral_eq_Suc)
  with run show ?thesis
    unfolding S_def L_def tA_def tB_def by blast
qed

text \<open>
  C7 (as the specification words it) fails. Two channels of the one station \<open>A\<close>, with
  the data \<open>[1, 1]\<close> and \<open>[-1, 1]\<close>: the code adds the normalised envelope of each
  channel and returns \<open>[2, 2]\<close>; the sum of one normalised envelope per matched
  station is \<open>[1, 1]\<close>.
\<close>

theorem node_energy_not_one_envelope_per_station:
  "stack_energy (*) 2 [''A''] [0]
     [\<lparr>station = ''A'', sampling_rate = 1, data = [1, 1]\<rparr>,
      \<lparr>station = ''A'', sampling_rate = 1, data = [- 1, 1]\<rparr>]
     = Inr ([], [Fin 2, Fin 2]) \<and>
   sum_axis0 (spec_station_rows (*) 2 [''A''] [0]
     [\<lparr>station = ''A'', sampling_rate = 1, data = [1, 1]\<rparr>,
      \<lparr>station = ''A'', sampling_rate = 1, data = [- 1, 1]\<rparr>])
     = [Fin 1, Fin 1]"
proof -
  define t1 where "t1 = \<lparr>station = ''A'', sampling_rate = 1, data = [1, 1 :: real]\<rparr>"
  define t2 where "t2 = \<lparr>station = ''A'', sampling_rate = 1, data = [- 1, 1 :: real]\<rparr>"
  have f: "station t1 = ''A''" "sampling_rate t1 = 1" "data t1 = [1, 1]"
    "station t2 = ''A''" "sampling_rate t2 = 1" "data t2 = [- 1, 1]"
    by (simp_all add: t1_def t2_def)
  have m: "matching [''A''] t1 = [0]" "matching [''A''] t2 = [0]"
    by (simp_all add: matching_def f upt_rec)
  have tw: "trace_warnings [''A''] t1 = []" "trace_warnings [''A''] t2 = []"
    by (simp_all add: trace_warnings_def m)
  have ms: "matched [''A''] [t1, t2] = [t1, t2]"
    by (simp add: matched_def m)
  have a: "stack_energy (*) 2 [''A''] [0] [t1, t2] = Inr ([], [Fin 2, Fin 2])"
    using stack_energy_rows [of "[t1, t2]" "[''A'']" "[0]" "(*)" "\<lambda>tr. [1, 1]" 2 2]
    by (simp add: m f lagged_ones ms tw row_ones sum_axis0_two)
  have ch: "spec_station_channels [t1, t2] ''A'' = [t1, t2]"
    by (simp add: spec_station_channels_def f)
  have b: "sum_axis0 (spec_station_rows (*) 2 [''A''] [0] [t1, t2]) = [Fin 1, Fin 1]"
    by (simp add: spec_station_rows_def ch f envelope_ones row_ones sum_axis0_one)
  show ?thesis
    using a b unfolding t1_def t2_def by simp
qed

section \<open>The phase conversion of \<open>_read_tt\<close>\<close>

text \<open>
  C10. The result of \<open>_read_tt\<close> is the same for all values of \<open>ps_ratio\<close>: the
  conversion between the phases divides (from S) or multiplies (from P) by the constant
  1.68 and the parameter is never read.
\<close>

theorem read_tt_ignores_ps_ratio:
  "read_tt fs pyfloat path stations phase phaseout r1 =
     read_tt fs pyfloat path stations phase phaseout r2 \<and>
   convert_phase phase phaseout tt =
     map (\<lambda>t. if phase = phaseout then t else if phase = ''S'' then t / 1.68 else t * 1.68) tt"
  by (simp add: read_tt_def convert_phase_def)

section \<open>The guard of \<open>_find_detections\<close>\<close>

lemma make_detections_not_nans:
  "make_detections nodes samp_rate thresh realstations peaks \<noteq> Inl NansPresent"
  by (induction peaks) (auto split: sum.splits prod.splits)

lemma pick_detections_not_nans:
  "pick_detections fp dl cnr nodes th ty sr rs \<noteq> Inl NansPresent"
  by (simp add: pick_detections_def Let_def make_detections_not_nans)

lemma isnan_nan_to_num1: "\<not> isnan (nan_to_num1 fmax x)"
  by (cases x) simp_all

lemma isfinite_nan_to_num1: "isfinite (nan_to_num1 fmax x)"
  by (cases x) simp_all

lemma no_nan_after: "\<not> list_ex isnan (nan_to_num fmax xs)"
  by (simp add: nan_to_num_def list_ex_iff isnan_nan_to_num1)

text \<open>
  C5 (as the code has it). Before any threshold is computed or any peak picked,
  \<open>_find_detections\<close> replaces every NaN with zero and every infinity with the largest
  finite value of its sign; what follows runs on the replaced array, which holds finite
  values only, and the error \<open>Nans present\<close> is never raised.
\<close>

theorem find_detections_replaces_nan_and_inf:
  "nan_to_num fmax resp =
     map (\<lambda>x. case x of NaN \<Rightarrow> Fin 0 | PInf \<Rightarrow> Fin fmax | NInf \<Rightarrow> Fin (- fmax) | Fin v \<Rightarrow> Fin v) resp \<and>
   list_all isfinite (nan_to_num fmax resp) \<and>
   find_detections fmax find_peaks2 default_length resp nodes threshold thresh_type samp_rate
       realstations =
     pick_detections find_peaks2 default_length (map fin_value (nan_to_num fmax resp)) nodes
       threshold thresh_type samp_rate realstations \<and>
   find_detections fmax find_peaks2 default_length resp nodes threshold thresh_type samp_rate
       realstations \<noteq> Inl NansPresent"
proof -
  have a: "nan_to_num1 fmax = (\<lambda>x. case x of NaN \<Rightarrow> Fin 0 | PInf \<Rightarrow> Fin fmax | NInf \<Rightarrow> Fin (- fmax) | Fin v \<Rightarrow> Fin v)"
    by (rule ext) (simp split: npfloat.splits)
  have b: "list_all isfinite (nan_to_num fmax resp)"
    by (simp add: nan_to_num_def list_all_iff isfinite_nan_to_num1)
  have c: "find_detections fmax find_peaks2 default_length resp nodes threshold thresh_type samp_rate
       realstations =
     pick_detections find_peaks2 default_length (map fin_value (nan_to_num fmax resp)) nodes
       threshold thresh_type samp_rate realstations"
    using no_nan_after [of fmax resp] by (simp add: find_detections_def Let_def)
  show ?thesis
    using a b c pick_detections_not_nans by (simp add: nan_to_num_def)
qed

text \<open>
  C5 (as the specification words it) fails: an infinity is not replaced with zero. For
  the array \<open>[inf, nan, -inf]\<close> of 64-bit floats the code continues with
  \<open>[max, 0, -max]\<close>, not with zeros.
\<close>

theorem find_detections_keeps_infinities_nonzero:
  "nan_to_num float64_max [PInf, NaN, NInf] = [Fin float64_max, Fin 0, Fin (- float64_max)] \<and>
   spec_replace_nonfinite [PInf, NaN, NInf] = [Fin 0, Fin 0, Fin 0] \<and>
   nan_to_num float64_max [PInf, NaN, NInf] \<noteq> spec_replace_nonfinite [PInf, NaN, NInf]"
proof -
  have "float64_max \<noteq> 0"
    by (simp add: float64_max_def)
  then show ?thesis
    by (simp add: nan_to_num_def spec_replace_nonfinite_def)
qed

section \<open>The coherence of a stream\<close>

lemma foldl_add_sum_list:
  "foldl (\<lambda>c j. c + f j) (c0 :: real) xs = c0 + sum_list (map f xs)"
  by (induction xs arbitrary: c0) (simp_all add: add.assoc)

lemma Max_all_equal:
  assumes "xs \<noteq> []" "\<forall>x \<in> set xs. x = (m :: nat)"
  shows "Max (set xs) = m"
proof -
  have "set xs = {m}"
    using assms by (cases xs) auto
  then show ?thesis by simp
qed

text \<open>
  C9. For a stream of \<open>n \<ge> 2\<close> channels of equal length, \<open>coherance\<close> returns the sum,
  over the pairs \<open>i < j\<close> of channels, of the absolute value of the pair's normalised
  cross-correlation at zero lag, divided by \<open>n(n - 1)/2\<close>; the result is not negative.
\<close>

theorem coherance_is_mean_over_pairs:
  assumes "2 \<le> length stream"
    and "\<forall>tr \<in> set stream. length (data tr) = m"
  shows "\<exists>c. coherance ncc stream = Inr c \<and>
           c = (\<Sum>i < length stream. \<Sum>j = Suc i..<length stream.
                  \<bar>ncc (data (stream ! i)) (data (stream ! j))\<bar>)
               / (real (length stream * (length stream - 1)) / 2) \<and>
           0 \<le> c"
proof -
  define n where "n = length stream"
  define f where "f = (\<lambda>i j. \<bar>ncc (data (stream ! i)) (data (stream ! j))\<bar>)"
  define total where "total = (\<Sum>i < n. \<Sum>j = Suc i..<n. f i j)"
  have ne: "stream \<noteq> []"
    using assms(1) by (cases stream) simp_all
  have "Max (set (map (\<lambda>tr. length (data tr)) stream)) = m"
    using ne assms(2) by (intro Max_all_equal) auto
  then have same: "\<not> list_ex (\<lambda>tr. length (data tr) \<noteq>
      Max (set (map (\<lambda>tr. length (data tr)) stream))) stream"
    using assms(2) by (simp add: list_ex_iff)
  have inner: "foldl (\<lambda>c j. c + f i j) c0 [i + 1..<n] = c0 + (\<Sum>j = Suc i..<n. f i j)" for i c0
    by (simp add: foldl_add_sum_list interv_sum_list_conv_sum_set_nat)
  have "foldl (\<lambda>c i. foldl (\<lambda>c j. c + f i j) c [i + 1..<n]) 0 [0..<n] =
        foldl (\<lambda>c i. c + (\<Sum>j = Suc i..<n. f i j)) 0 [0..<n]"
    by (simp only: inner)
  also have "\<dots> = total"
    by (simp add: foldl_add_sum_list interv_sum_list_conv_sum_set_nat total_def atLeast0LessThan)
  finally have loop: "foldl (\<lambda>c i. foldl (\<lambda>c j. c + f i j) c [i + 1..<n]) 0 [0..<n] = total" .
  have n2: "2 \<le> n"
    using assms(1) by (simp add: n_def)
  then have "n \<noteq> 0" "n - 1 \<noteq> 0"
    by arith+
  then have pos: "n * (n - 1) \<noteq> 0"
    by simp
  have run: "coherance ncc stream = Inr (2 * total / real (n * (n - 1)))"
    using ne same loop [unfolded f_def] pos
    by (simp add: coherance_def Let_def n_def [symmetric])
  have "0 \<le> total"
    unfolding total_def f_def by (intro sum_nonneg) simp
  then have "0 \<le> 2 * total / real (n * (n - 1))"
    by simp
  moreover have "2 * total / real (n * (n - 1)) = total / (real (n * (n - 1)) / 2)"
    by simp
  ultimately show ?thesis
    using run unfolding total_def f_def n_def by auto
qed


lemma pair_sum_three:
  "(\<Sum>i < (3::nat). \<Sum>j = Suc i..<3. (g i j :: real)) =
     g 0 (Suc 0) + g 0 (Suc (Suc 0)) + g (Suc 0) (Suc (Suc 0))"
  by (simp add: numeral_3_eq_3 lessThan_Suc atLeastLessThanSuc)

theorem coherance_is_mean_over_pairs_witness:
  "coherance (\<lambda>a b. hd a - hd b)
     [\<lparr>station = ''A'', sampling_rate = 1, data = [1]\<rparr>,
      \<lparr>station = ''B'', sampling_rate = 1, data = [2]\<rparr>,
      \<lparr>station = ''C'', sampling_rate = 1, data = [4]\<rparr>] = Inr 2"
proof -
  define st where "st = [\<lparr>station = ''A'', sampling_rate = 1, data = [1 :: real]\<rparr>,
      \<lparr>station = ''B'', sampling_rate = 1, data = [2]\<rparr>,
      \<lparr>station = ''C'', sampling_rate = 1, data = [4]\<rparr>]"
  have len: "length st = 3"
    by (simp add: st_def)
  have h1: "2 \<le> length st"
    by (simp add: len)
  have h2: "\<forall>tr \<in> set st. length (data tr) = 1"
    by (simp add: st_def)
  have d: "data (st ! 0) = [1]" "data (st ! Suc 0) = [2]" "data (st ! Suc (Suc 0)) = [4]"
    by (simp_all add: st_def)
  have s: "(\<Sum>i < 3. \<Sum>j = Suc i..<3. \<bar>hd (data (st ! i)) - hd (data (st ! j))\<bar>) = 6"
    by (simp only: pair_sum_three) (simp add: d)
  obtain c where c: "coherance (\<lambda>a b. hd a - hd b) st = Inr c"
    "c = (\<Sum>i < length st. \<Sum>j = Suc i..<length st.
            \<bar>hd (data (st ! i)) - hd (data (st ! j))\<bar>)
         / (real (length st * (length st - 1)) / 2)"
    using coherance_is_mean_over_pairs [OF h1 h2, of "\<lambda>a b. hd a - hd b"] by blast
  have "c = 2"
    unfolding c(2) len s by simp
  with c(1) show ?thesis
    unfolding st_def by simp
qed

section \<open>Alignment of nodes and lags under \<open>_resample_grid\<close> and \<open>_rm_similarlags\<close>\<close>

lemma resample_loop_idx:
  assumes "\<forall>nd \<in> set nodes. pyfloat (snd (snd nd)) \<noteq> None"
    and "length nodes \<le> ncols lags"
    and "i \<le> length nodes"
  shows "resample_loop pyfloat cp lo hi lags (drop i nodes) i =
           Inr (map (\<lambda>k. nodes ! k)
                  (filter (\<lambda>k. node_kept pyfloat cp lo hi (nodes ! k)) [i..<length nodes]),
                map (column lags)
                  (filter (\<lambda>k. node_kept pyfloat cp lo hi (nodes ! k)) [i..<length nodes]))"
  using assms(3)
proof (induction "length nodes - i" arbitrary: i)
  case 0
  then show ?case by simp
next
  case (Suc d)
  then have lt: "i < length nodes" by simp
  have dr: "drop i nodes = nodes ! i # drop (Suc i) nodes"
    using lt by (simp add: Cons_nth_drop_Suc)
  have up: "[i..<length nodes] = i # [Suc i..<length nodes]"
    using lt by (simp add: upt_conv_Cons)
  have IH: "resample_loop pyfloat cp lo hi lags (drop (Suc i) nodes) (Suc i) =
           Inr (map (\<lambda>k. nodes ! k)
                  (filter (\<lambda>k. node_kept pyfloat cp lo hi (nodes ! k)) [Suc i..<length nodes]),
                map (column lags)
                  (filter (\<lambda>k. node_kept pyfloat cp lo hi (nodes ! k)) [Suc i..<length nodes]))"
    using Suc.hyps(2) lt by (intro Suc.hyps(1)) simp_all
  obtain lat lon dep where nd: "nodes ! i = (lat, lon, dep)"
    by (cases "nodes ! i") auto
  have "nodes ! i \<in> set nodes"
    using lt by simp
  then obtain d' where pf: "pyfloat dep = Some d'"
    using assms(1) nd by fastforce
  have col: "\<not> ncols lags \<le> i"
    using lt assms(2) by simp
  show ?case
    unfolding dr up using IH col by (simp add: nd pf node_kept_def)
qed

lemma aligned_ncols:
  assumes "aligned stations nodes lags" "stations \<noteq> []"
  shows "ncols lags = length nodes"
proof -
  from assms obtain r rs where "lags = r # rs"
    by (cases lags) (auto simp: aligned_def)
  then show ?thesis
    using assms(1) by (simp add: aligned_def ncols_def)
qed

lemma transpose_columns:
  "map (\<lambda>s. map (\<lambda>col. col ! s) (map (column lags) idx)) [0..<length lags] =
     map (\<lambda>r. map (\<lambda>i. r ! i) idx) lags"
proof -
  have "map (\<lambda>s. map (\<lambda>col. col ! s) (map (column lags) idx)) [0..<length lags] =
        map (\<lambda>s. (\<lambda>r. map (\<lambda>i. r ! i) idx) (lags ! s)) [0..<length lags]"
    by (simp add: column_def)
  also have "\<dots> = map (\<lambda>r. map (\<lambda>i. r ! i) idx) (map (\<lambda>s. lags ! s) [0..<length lags])"
    by (simp only: map_map comp_def)
  also have "\<dots> = map (\<lambda>r. map (\<lambda>i. r ! i) idx) lags"
    by (simp add: map_nth)
  finally show ?thesis .
qed

lemma aligned_select:
  "aligned stations nodes lags \<Longrightarrow>
   aligned stations (map (\<lambda>i. nodes ! i) idx) (map (\<lambda>r. map (\<lambda>i. r ! i) idx) lags)"
  by (simp add: aligned_def list_all_iff)

lemma resample_grid_idx:
  assumes "aligned stations nodes lags" "stations \<noteq> []"
    and "\<forall>nd \<in> set nodes. pyfloat (snd (snd nd)) \<noteq> None"
  shows "resample_grid pyfloat cp stations nodes lags lo hi =
     Inr (stations,
          map (\<lambda>i. nodes ! i) (filter (\<lambda>k. node_kept pyfloat cp lo hi (nodes ! k)) [0..<length nodes]),
          map (\<lambda>r. map (\<lambda>i. r ! i)
                 (filter (\<lambda>k. node_kept pyfloat cp lo hi (nodes ! k)) [0..<length nodes])) lags)"
proof -
  have nc: "length nodes \<le> ncols lags"
    using aligned_ncols [OF assms(1,2)] by simp
  have len: "length lags = length stations"
    using assms(1) by (simp add: aligned_def)
  have "resample_loop pyfloat cp lo hi lags (drop 0 nodes) 0 =
           Inr (map (\<lambda>k. nodes ! k)
                  (filter (\<lambda>k. node_kept pyfloat cp lo hi (nodes ! k)) [0..<length nodes]),
                map (column lags)
                  (filter (\<lambda>k. node_kept pyfloat cp lo hi (nodes ! k)) [0..<length nodes]))"
    using assms(3) nc by (rule resample_loop_idx) simp
  then show ?thesis
    using transpose_columns [of lags] by (simp add: resample_grid_def len)
qed

lemma keep_loop_idx:
  assumes "sorted_wrt (<) (idx @ rest)"
  shows "\<exists>idx'. keep_loop nd nodes rest idx (map (\<lambda>i. nodes ! i) idx) =
                  (idx', map (\<lambda>i. nodes ! i) idx') \<and>
               sorted_wrt (<) idx' \<and> set idx' \<subseteq> set idx \<union> set rest"
  using assms
proof (induction rest arbitrary: idx)
  case Nil
  then show ?case by simp
next
  case (Cons i rest)
  show ?case
  proof (cases "list_all (\<lambda>k. nd ! i ! k) idx")
    case True
    have "sorted_wrt (<) ((idx @ [i]) @ rest)"
      using Cons.prems by simp
    from Cons.IH [OF this] obtain idx' where
      "keep_loop nd nodes rest (idx @ [i]) (map (\<lambda>i. nodes ! i) (idx @ [i])) =
         (idx', map (\<lambda>i. nodes ! i) idx')"
      "sorted_wrt (<) idx'" "set idx' \<subseteq> set (idx @ [i]) \<union> set rest"
      by blast
    then show ?thesis
      using True by (intro exI [of _ idx']) auto
  next
    case False
    have "sorted_wrt (<) (idx @ rest)"
      using Cons.prems by (auto simp: sorted_wrt_append)
    from Cons.IH [OF this] obtain idx' where
      "keep_loop nd nodes rest idx (map (\<lambda>i. nodes ! i) idx) = (idx', map (\<lambda>i. nodes ! i) idx')"
      "sorted_wrt (<) idx'" "set idx' \<subseteq> set idx \<union> set rest"
      by blast
    then show ?thesis
      using False by (intro exI [of _ idx']) auto
  qed
qed

lemma rm_similarlags_idx:
  assumes "aligned stations nodes lags" "stations \<noteq> []" "nodes \<noteq> []"
  shows "\<exists>idx. rm_similarlags stations nodes lags threshold =
            Inr (stations, map (\<lambda>i. nodes ! i) idx, map (\<lambda>r. map (\<lambda>i. r ! i) idx) lags) \<and>
          sorted_wrt (<) idx \<and> list_all (\<lambda>i. i < length nodes) idx"
proof -
  have nc: "ncols lags = length nodes"
    using assms(1,2) by (rule aligned_ncols)
  have pos: "0 < length nodes"
    using assms(3) by simp
  have up: "[0] @ [1..<length nodes] = [0..<length nodes]"
    using pos by (simp add: upt_conv_Cons)
  have "sorted_wrt (<) ([0] @ [1..<length nodes])"
    unfolding up by simp
  from keep_loop_idx [OF this, of "netdif lags threshold (length nodes)" nodes]
  obtain idx where k: "keep_loop (netdif lags threshold (length nodes)) nodes [1..<length nodes]
        [0] [nodes ! 0] = (idx, map (\<lambda>i. nodes ! i) idx)"
    and s: "sorted_wrt (<) idx" and sub: "set idx \<subseteq> set [0] \<union> set [1..<length nodes]"
    by auto
  have "list_all (\<lambda>i. i < length nodes) idx"
    using sub pos by (auto simp: list_all_iff)
  moreover have "rm_similarlags stations nodes lags threshold =
            Inr (stations, map (\<lambda>i. nodes ! i) idx, map (\<lambda>r. map (\<lambda>i. r ! i) idx) lags)"
    using nc pos k by (simp add: rm_similarlags_def)
  ultimately show ?thesis
    using s by blast
qed

lemma read_rows_lengths:
  "read_rows pyfloat rows = Inr (nodes, tt) \<Longrightarrow> length nodes = length tt"
proof (induction rows arbitrary: nodes tt)
  case Nil
  then show ?case by simp
next
  case (Cons row rows)
  then show ?case
    by (auto split: if_splits option.splits sum.splits prod.splits)
qed

lemma length_convert_phase: "length (convert_phase phase phaseout tt) = length tt"
  by (simp add: convert_phase_def)

lemma read_gridfiles_lengths:
  assumes "read_gridfiles fs pyfloat phase phaseout gridfiles allnodes alllags = Inr (nd, Some lg)"
    and "case alllags of None \<Rightarrow> True
         | Some rows \<Rightarrow> rows \<noteq> [] \<and> list_all (\<lambda>r. length r = length allnodes) rows"
  shows "list_all (\<lambda>r. length r = length nd) lg"
  using assms
proof (induction gridfiles arbitrary: allnodes alllags)
  case Nil
  then show ?case by simp
next
  case (Cons gridfile rest)
  from Cons.prems(1) obtain grid where g: "csv_rows fs gridfile = Some grid"
    by (auto split: option.splits)
  from Cons.prems(1) g obtain nodes tt where r: "read_rows pyfloat grid = Inr (nodes, tt)"
    by (auto split: sum.splits)
  define traveltime where "traveltime = convert_phase phase phaseout tt"
  define lags where "lags = map (\<lambda>t. t - Min (set traveltime)) traveltime"
  have ll: "length lags = length nodes"
    using read_rows_lengths [OF r] by (simp add: lags_def traveltime_def length_convert_phase)
  show ?case
  proof (cases alllags)
    case None
    have "read_gridfiles fs pyfloat phase phaseout rest nodes (Some [lags]) = Inr (nd, Some lg)"
      using Cons.prems(1) g r None
      by (simp add: Let_def traveltime_def [symmetric] lags_def [symmetric] split: if_splits)
    then show ?thesis
      by (rule Cons.IH) (use ll in simp)
  next
    case (Some rows)
    then have inv: "rows \<noteq> []" "list_all (\<lambda>r. length r = length allnodes) rows"
      using Cons.prems(2) by simp_all
    then have nc: "ncols rows = length allnodes"
      by (cases rows) (simp_all add: ncols_def)
    have run: "read_gridfiles fs pyfloat phase phaseout rest nodes (Some (rows @ [lags])) =
          Inr (nd, Some lg)" and eq: "length lags = ncols rows"
      using Cons.prems(1) g r Some
      by (simp_all add: Let_def traveltime_def [symmetric] lags_def [symmetric] split: if_splits)
    have all: "list_all (\<lambda>r. length r = length nodes) (rows @ [lags])"
      using inv(2) ll eq nc by (simp add: list_all_iff)
    from run show ?thesis
      by (rule Cons.IH) (use inv(1) all in simp)
  qed
qed

lemma read_tt_lengths:
  assumes "read_tt fs pyfloat path stations phase phaseout ps_ratio = Inr (st, nd, lg)"
  shows "list_all (\<lambda>r. length r = length nd) lg"
proof -
  from assms obtain gridfiles where
    "read_gridfiles fs pyfloat phase phaseout gridfiles [] None = Inr (nd, Some lg)"
    by (auto simp: read_tt_def Let_def split: if_splits sum.splits prod.splits option.splits)
  then show ?thesis
    by (rule read_gridfiles_lengths) simp
qed

text \<open>
  C8. The grid that \<open>_read_tt\<close> returns has one lag per node in every row. For a
  grid of the documented shape (one row of lags per station, one column per node),
  \<open>_resample_grid\<close> and \<open>_rm_similarlags\<close> return the station list unchanged and a
  selection of the nodes by a strictly increasing list of indices \<open>idx\<close>: output node
  \<open>i\<close> is input node \<open>idx[i]\<close>, and the output lag at \<open>[s][i]\<close> is the input lag at
  \<open>[s][idx[i]]\<close>, so it describes that node; the output has the documented shape
  again. \<open>_resample_grid\<close> returns when every depth is a number, \<open>_rm_similarlags\<close>
  when there is a node.
\<close>

theorem grid_alignment_preserved:
  "(\<forall>st nd lg. read_tt fs pyfloat path names phase phaseout ps_ratio = Inr (st, nd, lg) \<longrightarrow>
      list_all (\<lambda>r. length r = length nd) lg) \<and>
   (aligned stations nodes lags \<and> stations \<noteq> [] \<longrightarrow>
      (list_all (\<lambda>nd. pyfloat (snd (snd nd)) \<noteq> None) nodes \<longrightarrow>
         (\<exists>idx. resample_grid pyfloat contains_point stations nodes lags mindepth maxdepth =
                  Inr (stations, map (\<lambda>i. nodes ! i) idx, map (\<lambda>r. map (\<lambda>i. r ! i) idx) lags) \<and>
                sorted_wrt (<) idx \<and> list_all (\<lambda>i. i < length nodes) idx \<and>
                aligned stations (map (\<lambda>i. nodes ! i) idx)
                  (map (\<lambda>r. map (\<lambda>i. r ! i) idx) lags))) \<and>
      (nodes \<noteq> [] \<longrightarrow>
         (\<exists>idx. rm_similarlags stations nodes lags threshold =
                  Inr (stations, map (\<lambda>i. nodes ! i) idx, map (\<lambda>r. map (\<lambda>i. r ! i) idx) lags) \<and>
                sorted_wrt (<) idx \<and> list_all (\<lambda>i. i < length nodes) idx \<and>
                aligned stations (map (\<lambda>i. nodes ! i) idx)
                  (map (\<lambda>r. map (\<lambda>i. r ! i) idx) lags))))"
proof (intro conjI impI allI)
  fix st nd lg
  assume "read_tt fs pyfloat path names phase phaseout ps_ratio = Inr (st, nd, lg)"
  then show "list_all (\<lambda>r. length r = length nd) lg"
    by (rule read_tt_lengths)
next
  assume a: "aligned stations nodes lags \<and> stations \<noteq> []"
  assume "list_all (\<lambda>nd. pyfloat (snd (snd nd)) \<noteq> None) nodes"
  then have p: "\<forall>nd \<in> set nodes. pyfloat (snd (snd nd)) \<noteq> None"
    by (simp add: list_all_iff)
  define idx where "idx = filter (\<lambda>k. node_kept pyfloat contains_point mindepth maxdepth (nodes ! k))
     [0..<length nodes]"
  have "resample_grid pyfloat contains_point stations nodes lags mindepth maxdepth =
      Inr (stations, map (\<lambda>i. nodes ! i) idx, map (\<lambda>r. map (\<lambda>i. r ! i) idx) lags)"
    unfolding idx_def using a p by (intro resample_grid_idx) simp_all
  moreover have "sorted_wrt (<) idx"
    unfolding idx_def by (intro sorted_wrt_filter) simp
  moreover have "list_all (\<lambda>i. i < length nodes) idx"
    by (auto simp: idx_def list_all_iff)
  moreover have "aligned stations (map (\<lambda>i. nodes ! i) idx) (map (\<lambda>r. map (\<lambda>i. r ! i) idx) lags)"
    using a by (intro aligned_select) simp
  ultimately show "\<exists>idx. resample_grid pyfloat contains_point stations nodes lags mindepth maxdepth =
                    Inr (stations, map (\<lambda>i. nodes ! i) idx, map (\<lambda>r. map (\<lambda>i. r ! i) idx) lags) \<and>
                  sorted_wrt (<) idx \<and> list_all (\<lambda>i. i < length nodes) idx \<and>
                  aligned stations (map (\<lambda>i. nodes ! i) idx)
                    (map (\<lambda>r. map (\<lambda>i. r ! i) idx) lags)"
    by blast
next
  assume a: "aligned stations nodes lags \<and> stations \<noteq> []" and n: "nodes \<noteq> []"
  have al: "aligned stations nodes lags" and st: "stations \<noteq> []"
    using a by simp_all
  from rm_similarlags_idx [OF al st n, of threshold] aligned_select [OF al]
  show "\<exists>idx. rm_similarlags stations nodes lags threshold =
                    Inr (stations, map (\<lambda>i. nodes ! i) idx, map (\<lambda>r. map (\<lambda>i. r ! i) idx) lags) \<and>
                  sorted_wrt (<) idx \<and> list_all (\<lambda>i. i < length nodes) idx \<and>
                  aligned stations (map (\<lambda>i. nodes ! i) idx)
                    (map (\<lambda>r. map (\<lambda>i. r ! i) idx) lags)"
    by blast
qed

theorem grid_alignment_preserved_witness:
  "read_tt
     \<lparr>glob = (\<lambda>p. if p = ''g/*.S.A.time.csv'' \<or> p = ''g/*.S.A*.csv''
                   then [''g/x.S.A.time.csv''] else []),
      csv_rows = (\<lambda>f. if f = ''g/x.S.A.time.csv''
                       then Some [[''0'', ''0'', ''2'', ''7''], [''0'', ''1'', ''2'', ''9'']]
                       else None)\<rparr>
     (\<lambda>s. if s = ''7'' then Some 7 else if s = ''9'' then Some 9 else Some 2)
     ''g/'' [''A''] ''S'' ''S'' (168 / 100) =
     Inr ([''A''], [(''0'', ''0'', ''2''), (''0'', ''1'', ''2'')], [[0, 2]]) \<and>
   list_all (\<lambda>r. length r = length [(''0'', ''0'', ''2''), (''0'', ''1'', ''2'')]) [[0, 2 :: real]] \<and>
   (\<exists>idx. resample_grid (\<lambda>s. if s = ''7'' then Some 7 else if s = ''9'' then Some 9 else Some 2)
             (\<lambda>p. True) [''A''] [(''0'', ''0'', ''2''), (''0'', ''1'', ''2'')] [[0, 2]] 0 10 =
           Inr ([''A''], map (\<lambda>i. [(''0'', ''0'', ''2''), (''0'', ''1'', ''2'')] ! i) idx,
                map (\<lambda>r. map (\<lambda>i. r ! i) idx) [[0, 2]]) \<and>
          sorted_wrt (<) idx \<and> list_all (\<lambda>i. i < 2) idx) \<and>
   (\<exists>idx. rm_similarlags [''A''] [(''0'', ''0'', ''2''), (''0'', ''1'', ''2'')] [[0, 2]] 1 =
           Inr ([''A''], map (\<lambda>i. [(''0'', ''0'', ''2''), (''0'', ''1'', ''2'')] ! i) idx,
                map (\<lambda>r. map (\<lambda>i. r ! i) idx) [[0, 2]]) \<and>
          sorted_wrt (<) idx \<and> list_all (\<lambda>i. i < 2) idx)"
proof -
  define N :: "node list" where "N = [(''0'', ''0'', ''2''), (''0'', ''1'', ''2'')]"
  define L :: "real list list" where "L = [[0, 2]]"
  define pf :: "string \<Rightarrow> real option" where
    "pf = (\<lambda>s. if s = ''7'' then Some 7 else if s = ''9'' then Some 9 else Some 2)"
  define fs :: files where
    "fs = \<lparr>glob = (\<lambda>p. if p = ''g/*.S.A.time.csv'' \<or> p = ''g/*.S.A*.csv''
                   then [''g/x.S.A.time.csv''] else []),
      csv_rows = (\<lambda>f. if f = ''g/x.S.A.time.csv''
                       then Some [[''0'', ''0'', ''2'', ''7''], [''0'', ''1'', ''2'', ''9'']]
                       else None)\<rparr>"
  define G where "G = [[''0'', ''0'', ''2'', ''7''], [''0'', ''1'', ''2'', ''9'']]"
  have cs: "csv_rows fs ''g/x.S.A.time.csv'' = Some G"
    by (simp add: fs_def G_def)
  have gl: "glob fs ''g/*.S.A.time.csv'' = [''g/x.S.A.time.csv'']"
    "glob fs ''g/*.S.A*.csv'' = [''g/x.S.A.time.csv'']"
    by (simp_all add: fs_def)
  have rows: "read_rows pf G = Inr (N, [7, 9])"
    by (simp add: pf_def N_def G_def)
  have files: "read_gridfiles fs pf ''S'' ''S'' [''g/x.S.A.time.csv''] [] None = Inr (N, Some L)"
    by (simp add: cs rows convert_phase_def L_def)
  have run: "read_tt fs pf ''g/'' [''A''] ''S'' ''S'' (168 / 100) = Inr ([''A''], N, L)"
    by (simp add: read_tt_def gl files del: read_gridfiles.simps)
  have h1: "aligned [''A''] N L \<and> [''A''] \<noteq> []"
    by (simp add: aligned_def N_def L_def)
  have h3: "list_all (\<lambda>nd. pf (snd (snd nd)) \<noteq> None) N"
    by (simp add: N_def pf_def)
  have h4: "N \<noteq> []"
    by (simp add: N_def)
  have len: "length N = 2"
    by (simp add: N_def)
  note t = grid_alignment_preserved [of fs pf "''g/''" "[''A'']" "''S''" "''S''" "168 / 100"
      "[''A'']" N L "\<lambda>p. True" 0 10 1]
  have "list_all (\<lambda>r. length r = length N) L"
    using t run by blast
  moreover have "\<exists>idx. resample_grid pf (\<lambda>p. True) [''A''] N L 0 10 =
           Inr ([''A''], map (\<lambda>i. N ! i) idx, map (\<lambda>r. map (\<lambda>i. r ! i) idx) L) \<and>
          sorted_wrt (<) idx \<and> list_all (\<lambda>i. i < 2) idx"
    using t h1 h3 unfolding len by blast
  moreover have "\<exists>idx. rm_similarlags [''A''] N L 1 =
           Inr ([''A''], map (\<lambda>i. N ! i) idx, map (\<lambda>r. map (\<lambda>i. r ! i) idx) L) \<and>
          sorted_wrt (<) idx \<and> list_all (\<lambda>i. i < 2) idx"
    using t h1 h4 unfolding len by blast
  ultimately show ?thesis
    using run unfolding N_def L_def pf_def fs_def by blast
qed

text \<open>
  C2 fails on the code. One station, three nodes with the lags 0, 5 and 0, threshold 1:
  \<open>_rm_similarlags\<close> keeps the nodes 0 and 2, whose lag vectors are equal (distance 0),
  and drops node 1, whose distance to node 0 is 5. Row \<open>i\<close> of \<open>netdif\<close> is the
  comparison of node \<open>i - 1\<close>, since the row of node 0 stands twice at the head of
  the array.
\<close>

theorem rm_similarlags_keeps_indistinguishable_nodes:
  "rm_similarlags [''A'']
     [(''0'', ''0'', ''1''), (''0'', ''1'', ''1''), (''1'', ''0'', ''1'')] [[0, 5, 0]] 1 =
     Inr ([''A''], [(''0'', ''0'', ''1''), (''1'', ''0'', ''1'')], [[0, 0]]) \<and>
   l1_moveout [[0, 0]] 0 1 = 0 \<and>
   l1_moveout [[0, 5, 0]] 0 2 = 0 \<and>
   l1_moveout [[0, 5, 0]] 0 1 = 5"
proof -
  define N :: "node list" where
    "N = [(''0'', ''0'', ''1''), (''0'', ''1'', ''1''), (''1'', ''0'', ''1'')]"
  have nc: "ncols [[0, 5, 0 :: real]] = 3"
    by (simp add: ncols_def)
  have up: "[0..<3] = [0, Suc 0, 2]" "[Suc 0..<3] = [Suc 0, 2]"
    by (simp_all add: upt_rec)
  have r0: "netdif_row [[0, 5, 0]] 1 0 = [False, True, False]"
    by (simp add: netdif_row_def ncols_def upt_rec)
  have r1: "netdif_row [[0, 5, 0]] 1 (Suc 0) = [True, False, True]"
    by (simp add: netdif_row_def ncols_def upt_rec)
  have r2: "netdif_row [[0, 5, 0]] 1 2 = [False, True, False]"
    by (simp add: netdif_row_def ncols_def upt_rec)
  have nd: "netdif [[0, 5, 0]] 1 3 =
      [[False, True, False], [False, True, False], [True, False, True], [False, True, False]]"
    by (simp add: netdif_def up r0 r1 r2)
  have k: "keep_loop (netdif [[0, 5, 0]] 1 3) N [Suc 0, 2] [0] [N ! 0] = ([0, 2], [N ! 0, N ! 2])"
    by (simp add: nd)
  have len: "length N = 3"
    by (simp add: N_def)
  have "rm_similarlags [''A''] N [[0, 5, 0]] 1 = Inr ([''A''], [N ! 0, N ! 2], [[0, 0]])"
    by (simp add: rm_similarlags_def nc len up nd)
  moreover have "l1_moveout [[0, 0]] 0 1 = 0" "l1_moveout [[0, 5, 0]] 0 2 = 0"
    "l1_moveout [[0, 5, 0]] 0 1 = 5"
    by (simp_all add: l1_moveout_def)
  ultimately show ?thesis
    by (simp add: N_def)
qed

section \<open>The chunks of the out-of-core reduction\<close>

lemma argmax_pair:
  "argmax [Fin a, Fin b] = (if a < b then 1 else 0)"
  by (simp add: argmax_def)

lemma argmax_axis0_pair:
  "argmax_axis0 [[Fin a], [Fin b]] = [if a < b then 1 else 0]"
  by (simp add: argmax_axis0_def ncols_def column_def argmax_pair)

lemma concat_chunks:
  "a \<le> b \<Longrightarrow> concat (map (\<lambda>i. [ns * i..<ns * (i + 1)]) [a..<b]) = [ns * a..<ns * b]"
proof (induction b)
  case 0
  then show ?case by simp
next
  case (Suc b)
  show ?case
  proof (cases "a = Suc b")
    case True
    then show ?thesis by simp
  next
    case False
    then have ab: "a \<le> b" using Suc.prems by simp
    have "[ns * a..<ns * b + ns] = [ns * a..<ns * b] @ [ns * b..<ns * b + ns]"
      using ab by (intro upt_add_eq_append) simp
    then show ?thesis
      using ab Suc.IH by (simp add: add.commute)
  qed
qed

text \<open>
  With one worker, and with three or more workers (never more than nodes), the chunks
  of lines 480 to 487 are the node indices \<open>0, ..., n - 1\<close> in order, cut into
  contiguous ranges.
\<close>

lemma worker_chunks_one: "worker_chunks n 1 = [[0..<n]]"
  by (simp add: worker_chunks_def node_chunks_def)

lemma worker_chunks_partition:
  assumes "3 \<le> num_cores" "num_cores \<le> n"
  shows "concat (worker_chunks n num_cores) = [0..<n]"
proof -
  define ns where "ns = n div num_cores"
  have ne: "[1..<num_cores - 1] \<noteq> []"
    using assms(1) by simp
  have la: "last [1..<num_cores - 1] = num_cores - 2"
    using assms(1) by (simp add: last_upt)
  have len: "length (node_chunks n num_cores (n - 1)) = num_cores"
    using assms(1) by (simp add: node_chunks_def Let_def)
  have mid: "concat (map (\<lambda>i. [ns * i..<ns * (i + 1)]) [1..<num_cores - 1]) =
      [ns * 1..<ns * (num_cores - 1)]"
    using assms(1) by (intro concat_chunks) simp
  have "1 \<le> num_cores - 1"
    using assms(1) by arith
  then have "ns * 1 \<le> ns * (num_cores - 1)"
    by (rule mult_le_mono2)
  then have le1: "ns \<le> ns * (num_cores - 1)"
    by simp
  have "ns * num_cores \<le> n"
    by (simp add: ns_def)
  moreover have "ns * (num_cores - 1) \<le> ns * num_cores"
    by simp
  ultimately have le2: "ns * (num_cores - 1) \<le> n"
    by (rule order_trans [rotated])
  have a: "[0..<ns] @ [ns..<ns * (num_cores - 1)] = [0..<ns * (num_cores - 1)]"
    using le1 by (metis le0 le_Suc_ex upt_add_eq_append)
  have b: "[0..<ns * (num_cores - 1)] @ [ns * (num_cores - 1)..<n] = [0..<n]"
    using le2 by (metis le0 le_Suc_ex upt_add_eq_append)
  have s: "Suc (num_cores - 2) = num_cores - 1"
    using assms(1) by simp
  have "ns * Suc (num_cores - 2) = ns * (num_cores - Suc 0)"
    unfolding s by simp
  then have s2: "ns + ns * (num_cores - 2) = ns * (num_cores - Suc 0)"
    by simp
  have "concat (node_chunks n num_cores (n - 1)) =
      [0..<ns] @ [ns..<ns * (num_cores - 1)] @ [ns * (num_cores - 1)..<n]"
    using ne la mid s2 by (simp add: node_chunks_def Let_def ns_def [symmetric])
  also have "\<dots> = ([0..<ns] @ [ns..<ns * (num_cores - 1)]) @ [ns * (num_cores - 1)..<n]"
    by (simp only: append_assoc)
  also have "\<dots> = [0..<n]"
    by (simp only: a b)
  finally have "concat (node_chunks n num_cores (n - 1)) = [0..<n]" .
  then show ?thesis
    using len by (simp add: worker_chunks_def)
qed

text \<open>
  C4 fails on the code for two workers. With four nodes and two workers the loop of
  line 482 has no iteration, line 484 reads \<open>i = 3\<close> left by line 456, and the second
  chunk is \<open>range(8, 4)\<close>, which is empty: the nodes 2 and 3 are in no chunk, and
  the worker of the empty chunk raises IndexError.
\<close>

theorem worker_chunks_two_cores_omit_nodes:
  "worker_count 2 2 4 = 2 \<and>
   worker_chunks 4 2 = [[0, 1], []] \<and>
   concat (worker_chunks 4 2) \<noteq> [0..<4] \<and>
   brightness_reduce 2 2 [[Fin 1], [Fin 1], [Fin 1], [Fin 1]] = Inl IndexError"
proof -
  define E where "E = [[Fin 1], [Fin 1], [Fin 1], [Fin 1]]"
  have a: "worker_count 2 2 4 = 2"
    by (simp add: worker_count_def)
  have b: "worker_chunks 4 2 = [[0, Suc 0], []]"
    by (simp add: worker_chunks_def node_chunks_def upt_rec)
  have "[0..<4] = [0, 1, 2, 3]"
    by (simp add: upt_rec)
  then have c: "concat (worker_chunks 4 2) \<noteq> [0..<4]"
    using b by simp
  have sc: "scratch_of E 0 = Some [Fin 1]" "scratch_of E (Suc 0) = Some [Fin 1]"
    by (simp_all add: scratch_of_def E_def)
  have w: "cum_net_resp [0, Suc 0] (scratch_of E) =
      Inr ((scratch_of E)(0 := None, Suc 0 := None), [Fin 1], [IntIndex 0])"
    by (simp add: cum_net_resp_def sc argmax_axis0_pair)
  have e: "cum_net_resp [] ((scratch_of E)(0 := None, Suc 0 := None)) = Inl IndexError"
    by (simp add: cum_net_resp_def)
  have len: "length E = 4"
    by (simp add: E_def)
  have "brightness_reduce 2 2 E = Inl IndexError"
    by (simp add: brightness_reduce_def len a b brightness_out_of_core_def w e)
  then show ?thesis
    using a b c unfolding E_def by simp
qed

section \<open>The owner of the maximum in the two reductions\<close>

text \<open>
  C1 fails on the code. Three nodes with the energies 1, 5 and 3 at one sample: the
  reduction in memory names node 1 as the owner of the maximum 5. The worker that
  folds the chunk \<open>[0, 1, 2]\<close> returns the owner 0: after node 2, \<open>indeces\<close> is the
  \<open>updated_indeces\<close> of that step alone, where 0 means that the running maximum
  stayed, and the owner recorded before is lost; this is the run of \<open>brightness\<close>
  with one worker. With the chunks \<open>[0, 1]\<close> and
  \<open>[2]\<close> the owner is 1, so the answer depends on the partitioning. The values agree.
\<close>

theorem cum_net_resp_loses_owner:
  "brightness_in_memory [[Fin 1], [Fin 5], [Fin 3]] = Inr ([Fin 5], [1]) \<and>
   brightness_out_of_core [[0, 1, 2]] (scratch_of [[Fin 1], [Fin 5], [Fin 3]]) =
     Inr ([Fin 5], [0]) \<and>
   brightness_reduce 1 1 [[Fin 1], [Fin 5], [Fin 3]] = Inr ([Fin 5], [0]) \<and>
   brightness_out_of_core [[0, 1], [2]] (scratch_of [[Fin 1], [Fin 5], [Fin 3]]) =
     Inr ([Fin 5], [1])"
proof -
  define E where "E = [[Fin 1], [Fin 5], [Fin 3]]"
  define sc where "sc = scratch_of E"
  have sc: "sc 0 = Some [Fin 1]" "sc (Suc 0) = Some [Fin 5]" "sc 2 = Some [Fin 3]"
    by (simp_all add: sc_def scratch_of_def E_def)
  have mem: "brightness_in_memory E = Inr ([Fin 5], [1])"
    by (simp add: brightness_in_memory_def E_def ncols_def argmax_axis0_def column_def
        argmax_def)
  have w012: "cum_net_resp [0, Suc 0, 2] sc =
      Inr (sc(0 := None, Suc 0 := None, 2 := None), [Fin 5], [IntIndex 0])"
    by (simp add: cum_net_resp_def sc argmax_axis0_pair)
  have w01: "cum_net_resp [0, Suc 0] sc =
      Inr (sc(0 := None, Suc 0 := None), [Fin 5], [IntIndex (Suc 0)])"
    by (simp add: cum_net_resp_def sc argmax_axis0_pair)
  have w2: "cum_net_resp [2] (sc(0 := None, Suc 0 := None)) =
      Inr (sc(0 := None, Suc 0 := None, 2 := None), [Fin 3], [FloatIndex 2])"
    by (simp add: cum_net_resp_def sc)
  have one: "brightness_out_of_core [[0, Suc 0, 2]] sc = Inr ([Fin 5], [0])"
    by (simp add: brightness_out_of_core_def w012 ncols_def argmax_axis0_def column_def
        argmax_def)
  have two: "brightness_out_of_core [[0, Suc 0], [2]] sc = Inr ([Fin 5], [Suc 0])"
    by (simp add: brightness_out_of_core_def w01 w2 ncols_def argmax_axis0_def column_def
        argmax_def)
  have len: "length E = 3"
    by (simp add: E_def)
  have up: "[0..<3] = [0, Suc 0, 2]"
    by (simp add: upt_rec)
  have wc: "worker_count 1 1 (length E) = 1"
    by (simp add: worker_count_def len)
  have ch: "worker_chunks (length E) 1 = [[0, Suc 0, 2]]"
    unfolding len worker_chunks_one up by (rule refl)
  have red: "brightness_reduce 1 1 E = Inr ([Fin 5], [0])"
    unfolding brightness_reduce_def Let_def wc ch using one by (simp add: sc_def)
  show ?thesis
    using mem one two red unfolding sc_def E_def by simp
qed

text \<open>
  A chunk of one node returns its owners as floats (line 273), and the driver raises
  TypeError at line 500 when such a chunk holds the maximum of a sample.
\<close>

lemma one_node_chunk_owner_is_float:
  "brightness_out_of_core [[0], [1]] (scratch_of [[Fin 1], [Fin 5]]) = Inl TypeError"
proof -
  define sc where "sc = scratch_of [[Fin 1], [Fin 5]]"
  have sc: "sc 0 = Some [Fin 1]" "sc (Suc 0) = Some [Fin 5]"
    by (simp_all add: sc_def scratch_of_def)
  have a: "cum_net_resp [0] sc = Inr (sc(0 := None), [Fin 1], [FloatIndex 0])"
    by (simp add: cum_net_resp_def sc)
  have b: "cum_net_resp [Suc 0] (sc(0 := None)) =
      Inr (sc(0 := None, Suc 0 := None), [Fin 5], [FloatIndex (Suc 0)])"
    by (simp add: cum_net_resp_def sc)
  have "brightness_out_of_core [[0], [Suc 0]] sc = Inl TypeError"
    by (simp add: brightness_out_of_core_def a b ncols_def argmax_axis0_def column_def argmax_def)
  then show ?thesis
    unfolding sc_def by simp
qed

end
